theory Spec2Isabelle
  imports Main "HOL-Library.Finite_Map"
begin

section \<open>Data model (src/cw/interfaces)\<close>

text \<open>
  The claim-settlement core of the faucet: \<^verbatim>\<open>CwWalletManager\<close>, \<^verbatim>\<open>CwClaimManager\<close>,
  \<^verbatim>\<open>CwClaimNotificationClient\<close> and \<^verbatim>\<open>CwWalletRefill\<close>.  JavaScript \<^verbatim>\<open>number\<close>s that
  hold indices, heights, sequence numbers and unix seconds are \<^typ>\<open>int\<close>; \<^verbatim>\<open>bigint\<close> is
  \<^typ>\<open>int\<close>; an optional field is an \<^typ>\<open>'a option\<close>.
\<close>

datatype ClaimTxStatus = QUEUE | PROCESSING | PENDING | CONFIRMED | FAILED

record ClaimData =
  claimIdx :: int
  claimStatus :: ClaimTxStatus
  claimTime :: int
  txHash :: "string option"
  txHeight :: "int option"
  txFee :: "string option"
  txError :: "string option"

record ClaimInfo =
  session :: string
  target :: string
  amount :: string
  claim :: ClaimData

record WalletState =
  ready :: bool
  sequence :: int
  balance :: int
  nativeBalance :: int

record IClaimNotificationData =
  processedIdx :: int
  confirmedIdx :: int

text \<open>
  Modelled from the spec: \<^verbatim>\<open>FaucetSessionStatus\<close> and \<^verbatim>\<open>FaucetSessionStoreData\<close> are declared in
  \<^verbatim>\<open>session/FaucetSession\<close>, which is not part of the sources at hand.  The core reads the
  fields below; the optional claim record of a session is \<open>sessionClaim\<close> (the source's
  \<^verbatim>\<open>sessionData.claim\<close>).
\<close>

datatype FaucetSessionStatus =
  UNKNOWN | STARTING | RUNNING | CLAIMABLE | CLAIMING | FINISHED | SESSION_FAILED

record FaucetSessionStoreData =
  sessionId :: string
  status :: FaucetSessionStatus
  targetAddr :: string
  dropAmount :: string
  sessionClaim :: "ClaimData option"

text \<open>
  Modelled from the spec: the configuration object \<^verbatim>\<open>faucetConfig\<close> lives in
  \<^verbatim>\<open>config/FaucetConfig\<close>, which is not part of the sources at hand; these are the keys the
  core reads.  Monetary values are base-unit integer strings; the refill keys may be unset.
\<close>

record Config =
  cwAddressPrefix :: string
  cwDenom :: string
  cwIsNativeToken :: bool
  cwContractAddress :: string
  cwDecimals :: nat
  cwSymbol :: string
  cwGasAmount :: string
  cwGasLimit :: string
  cwMinGasAmount :: string
  cwMinAmount :: string
  cwMaxAmount :: string
  cwMaxPending :: int
  cwRefillEnabled :: bool
  cwRefillContract :: "string option"
  cwRefillAmount :: "string option"
  cwRefillThreshold :: "string option"
  cwRefillOverflowAmount :: "string option"
  cwRefillCooldown :: int

subsection \<open>Exceptions\<close>

text \<open>
  Every \<^verbatim>\<open>throw\<close> of the source is a value: \<open>FaucetError code message\<close> for the domain
  errors, and the JavaScript built-ins that the code can raise.
\<close>

datatype error =
  FaucetError string string
  | Error string
  | SyntaxError string
  | TypeError string

fun toString :: "error \<Rightarrow> string" where
  "toString (FaucetError c m) = ''Error: '' @ m"
| "toString (Error m) = ''Error: '' @ m"
| "toString (SyntaxError m) = ''SyntaxError: '' @ m"
| "toString (TypeError m) = ''TypeError: '' @ m"

subsection \<open>\<^verbatim>\<open>BigInt(string)\<close> and \<^verbatim>\<open>bigint.toString()\<close>\<close>

text \<open>
  \<^verbatim>\<open>BigInt\<close> applied to a string trims white space, reads the empty string as zero, accepts
  a signed decimal literal or an unsigned literal with a \<^verbatim>\<open>0x\<close>, \<^verbatim>\<open>0o\<close> or \<^verbatim>\<open>0b\<close> prefix,
  and throws a \<^verbatim>\<open>SyntaxError\<close> on everything else (\<open>None\<close> here).  White space is the
  ASCII part of the ECMAScript set.
\<close>

definition isWhiteSpace :: "char \<Rightarrow> bool" where
  "isWhiteSpace c = (c \<in> set [CHR 0x09, CHR 0x0A, CHR 0x0B, CHR 0x0C, CHR 0x0D, CHR '' ''])"

definition trim :: "string \<Rightarrow> string" where
  "trim s = rev (dropWhile isWhiteSpace (rev (dropWhile isWhiteSpace s)))"

definition digitVal :: "char \<Rightarrow> nat option" where
  "digitVal c = (let n = (of_char c :: nat) in
     if 48 \<le> n \<and> n \<le> 57 then Some (n - 48)
     else if 97 \<le> n \<and> n \<le> 122 then Some (n - 87)
     else if 65 \<le> n \<and> n \<le> 90 then Some (n - 55)
     else None)"

fun parseDigits :: "nat \<Rightarrow> nat \<Rightarrow> string \<Rightarrow> nat option" where
  "parseDigits b acc [] = Some acc"
| "parseDigits b acc (c # cs) =
     (case digitVal c of
        None \<Rightarrow> None
      | Some d \<Rightarrow> if d < b then parseDigits b (acc * b + d) cs else None)"

definition parseNat :: "nat \<Rightarrow> string \<Rightarrow> nat option" where
  "parseNat b s = (if s = [] then None else parseDigits b 0 s)"

definition BigInt :: "string \<Rightarrow> int option" where
  "BigInt s =
     (case trim s of
        [] \<Rightarrow> Some 0
      | c # r \<Rightarrow>
          if c = CHR ''+'' then map_option int (parseNat 10 r)
          else if c = CHR ''-'' then map_option (\<lambda>n. - int n) (parseNat 10 r)
          else if c = CHR ''0'' \<and> r \<noteq> [] \<and> hd r \<in> set ''xX'' then map_option int (parseNat 16 (tl r))
          else if c = CHR ''0'' \<and> r \<noteq> [] \<and> hd r \<in> set ''oO'' then map_option int (parseNat 8 (tl r))
          else if c = CHR ''0'' \<and> r \<noteq> [] \<and> hd r \<in> set ''bB'' then map_option int (parseNat 2 (tl r))
          else map_option int (parseNat 10 (c # r)))"

definition cannotConvert :: "string \<Rightarrow> error" where
  "cannotConvert s = SyntaxError (''Cannot convert '' @ s @ '' to a BigInt'')"

fun natToString :: "nat \<Rightarrow> string" where
  "natToString n =
     (if n < 10 then [''0123456789'' ! n]
      else natToString (n div 10) @ [''0123456789'' ! (n mod 10)])"

declare natToString.simps [simp del]

definition bigintToString :: "int \<Rightarrow> string" where
  "bigintToString i = (if i < 0 then CHR ''-'' # natToString (nat (- i)) else natToString (nat i))"

text \<open>JavaScript truthiness of an optional string: \<^verbatim>\<open>undefined\<close> and \<^verbatim>\<open>""\<close> are falsy.\<close>

definition truthy :: "string option \<Rightarrow> bool" where
  "truthy s = (case s of None \<Rightarrow> False | Some v \<Rightarrow> v \<noteq> [])"

definition strOf :: "string option \<Rightarrow> string" where
  "strOf s = (case s of None \<Rightarrow> [] | Some v \<Rightarrow> v)"

section \<open>The chain, as seen through the signing and the query client\<close>

text \<open>
  The chain clients are external.  A call on the signing client is recorded in the state
  (\<open>chainCalls\<close>); its outcome is given by an oracle that receives the number of calls made
  before it and the call itself, so any sequence of outcomes can be supplied.
\<close>

datatype Coin = Coin (denom: string) (coinAmount: string)

datatype StdFee = StdFee (feeAmount: "Coin list") (gas: string)

datatype ExecuteMsg = Transfer string string | Withdraw string | Deposit

datatype ChainCall =
  SendTokensCall string string "Coin list" StdFee
  | ExecuteCall string string ExecuteMsg StdFee

datatype ChainResult = TxOk string int | TxRejected string

type_synonym SigningClient = "nat \<Rightarrow> ChainCall \<Rightarrow> ChainResult"

datatype TransactionResult = TransactionResult (resTxHash: string) (resHeight: int) (resFee: int)

datatype GetTxResult = TxFound int int | TxNotFound | GetTxFailed string

datatype FaucetLogLevel = INFO | WARNING | ERROR

text \<open>
  A log line is its template and the values interpolated into it; an amount is kept as the
  integer that \<^verbatim>\<open>readableAmount\<close> renders.
\<close>

datatype LogMessage =
  CannotRestoreClaimTx ClaimTxStatus
  | QueueProcessingException string
  | SubmittedClaimTx string string string string
  | TransactionFailed string string
  | WalletLoaded string int int
  | ErrorLoadingWalletState string
  | SendingRefillTx string string
  | RefillSucceeded string
  | RefillTxFailed string string
  | RefillAttemptFailed string

datatype HookResult = HookOk ClaimInfo | HookFaucetError string string | HookException string

datatype ChainQuery = ChainQuery "int option" string string | ChainQueryFailed string

section \<open>State of the services\<close>

text \<open>
  One record holds the fields of the four services.  \<^verbatim>\<open>ClaimInfo\<close> objects are shared by
  reference between the queue, the dictionaries and the watchers, so they live in \<open>heap\<close>
  and the collections hold references.  \<open>chainCalls\<close>, \<open>watchers\<close>, \<open>broadcasts\<close>,
  \<open>delivered\<close>, \<open>logs\<close> and \<open>dbClaimData\<close> record the calls made on the external
  services (signing client, query client, web sockets, log, database).  Each operation runs
  to its end before the next one starts: no other task is interleaved at its \<^verbatim>\<open>await\<close>
  points, except for the watcher of a transaction, whose wait for the chain separates
  \<open>awaitTxConfirmation\<close> from \<open>txConfirmation\<close>.
\<close>

record State =
  walletState :: WalletState
  walletAddress :: string
  lastWalletRefresh :: int
  chainCalls :: "ChainCall list"
  heap :: "nat \<Rightarrow> ClaimInfo"
  nextRef :: nat
  initialized :: bool
  claimTxDict :: "(string, nat) fmap"
  claimTxQueue :: "nat list"
  pendingTxQueue :: "(string, nat) fmap"
  historyTxDict :: "(int, nat) fmap"
  queueProcessing :: bool
  lastClaimTxIdx :: int
  lastProcessedClaimTxIdx :: int
  lastConfirmedClaimTxIdx :: int
  lastNotificationData :: "IClaimNotificationData option"
  watchers :: "nat list"
  activeClients :: "int list"
  hubLastNotificationData :: "IClaimNotificationData option"
  broadcasts :: "IClaimNotificationData list"
  delivered :: "(int \<times> IClaimNotificationData) list"
  lastRefillTime :: int
  lastRefillTry :: int
  isRefilling :: bool
  logs :: "(FaucetLogLevel \<times> LogMessage) list"
  dbClaimData :: "(string \<times> ClaimData) list"

definition emitLog :: "FaucetLogLevel \<Rightarrow> LogMessage \<Rightarrow> State \<Rightarrow> State" where
  "emitLog lvl msg st = st\<lparr>logs := logs st @ [(lvl, msg)]\<rparr>"

section \<open>CwWalletManager\<close>

definition gasFee :: "Config \<Rightarrow> StdFee" where
  "gasFee cfg = StdFee [Coin (cwDenom cfg) (cwGasAmount cfg)] (cwGasLimit cfg)"

text \<open>
  \<^verbatim>\<open>sendTokens\<close>: the readiness check, one call on the signing client (a bank send for a
  native token, a \<^verbatim>\<open>transfer\<close> execute otherwise), then the local debits in the order of
  the source.  An exception inside the \<^verbatim>\<open>try\<close> (a rejected broadcast, or a \<^verbatim>\<open>BigInt\<close>
  that cannot parse) is rethrown as \<^verbatim>\<open>Error("Failed to send tokens: ...")\<close>; the updates made
  before it stay.
\<close>

definition sendTokens ::
  "Config \<Rightarrow> SigningClient \<Rightarrow> string \<Rightarrow> string \<Rightarrow> State \<Rightarrow> (error + TransactionResult) \<times> State" where
  "sendTokens cfg client recipientAddr amt st =
     (if \<not> ready (walletState st) then (Inl (Error ''Wallet not ready''), st)
      else
        let call =
              (if cwIsNativeToken cfg
               then SendTokensCall (walletAddress st) recipientAddr [Coin (cwDenom cfg) amt] (gasFee cfg)
               else ExecuteCall (walletAddress st) (cwContractAddress cfg)
                      (Transfer recipientAddr amt) (gasFee cfg));
            tx = client (length (chainCalls st)) call;
            st1 = st\<lparr>chainCalls := chainCalls st @ [call]\<rparr>
        in (case tx of
             TxRejected err \<Rightarrow> (Inl (Error (''Failed to send tokens: '' @ err)), st1)
           | TxOk hash height \<Rightarrow>
               (let st2 = st1\<lparr>walletState := (walletState st1)\<lparr>sequence := sequence (walletState st1) + 1\<rparr>\<rparr>
                in (case BigInt amt of
                      None \<Rightarrow> (Inl (Error (''Failed to send tokens: '' @ toString (cannotConvert amt))), st2)
                    | Some a \<Rightarrow>
                        (let st3 = st2\<lparr>walletState := (walletState st2)\<lparr>balance := balance (walletState st2) - a\<rparr>\<rparr>
                         in (case BigInt (cwGasAmount cfg) of
                               None \<Rightarrow>
                                 (Inl (Error (''Failed to send tokens: ''
                                              @ toString (cannotConvert (cwGasAmount cfg)))), st3)
                             | Some g \<Rightarrow>
                                 (let debit = (if cwIsNativeToken cfg then a + g else g);
                                      st4 = st3\<lparr>walletState :=
                                              (walletState st3)\<lparr>nativeBalance :=
                                                 nativeBalance (walletState st3) - debit\<rparr>\<rparr>
                                  in (Inr (TransactionResult hash height g), st4))))))))"

text \<open>A run of \<^verbatim>\<open>sendTokens\<close> calls with nothing in between (no \<^verbatim>\<open>loadWalletState\<close>).\<close>

fun sendTokensRun ::
  "Config \<Rightarrow> SigningClient \<Rightarrow> (string \<times> string) list \<Rightarrow> State \<Rightarrow> (error + TransactionResult) list \<times> State" where
  "sendTokensRun cfg client [] st = ([], st)"
| "sendTokensRun cfg client (req # reqs) st =
     (let (res, st1) = sendTokens cfg client (fst req) (snd req) st;
          (ress, st2) = sendTokensRun cfg client reqs st1
      in (res # ress, st2))"

text \<open>
  \<^verbatim>\<open>executeContract\<close>: as \<^verbatim>\<open>sendTokens\<close>, with the debit of the first fee coin.  Reading
  \<^verbatim>\<open>fee.amount[0].amount\<close> of an empty fee list is a \<^verbatim>\<open>TypeError\<close>.
\<close>

definition executeContract ::
  "SigningClient \<Rightarrow> string \<Rightarrow> ExecuteMsg \<Rightarrow> StdFee \<Rightarrow> State \<Rightarrow> (error + TransactionResult) \<times> State" where
  "executeContract client contractAddr msg fee st =
     (if \<not> ready (walletState st) then (Inl (Error ''Wallet not ready''), st)
      else
        let call = ExecuteCall (walletAddress st) contractAddr msg fee;
            tx = client (length (chainCalls st)) call;
            st1 = st\<lparr>chainCalls := chainCalls st @ [call]\<rparr>
        in (case tx of
              TxRejected err \<Rightarrow> (Inl (Error (''Failed to execute contract: '' @ err)), st1)
            | TxOk hash height \<Rightarrow>
                (let st2 = st1\<lparr>walletState := (walletState st1)\<lparr>sequence := sequence (walletState st1) + 1\<rparr>\<rparr>
                 in (case feeAmount fee of
                       [] \<Rightarrow>
                         (Inl (Error (''Failed to execute contract: ''
                                      @ toString (TypeError ''Cannot read properties of undefined''))), st2)
                     | coin # _ \<Rightarrow>
                         (case BigInt (coinAmount coin) of
                            None \<Rightarrow>
                              (Inl (Error (''Failed to execute contract: ''
                                           @ toString (cannotConvert (coinAmount coin)))), st2)
                          | Some f \<Rightarrow>
                              (Inr (TransactionResult hash height f),
                               st2\<lparr>walletState :=
                                     (walletState st2)\<lparr>nativeBalance := nativeBalance (walletState st2) - f\<rparr>\<rparr>))))))"

text \<open>
  \<^verbatim>\<open>loadWalletState\<close>: the three chain queries are one oracle answer (account sequence, token
  balance, native balance); the snapshot is replaced as a whole, and any failure publishes
  the not-ready snapshot.  The faucet status slot is not modelled.
\<close>

definition notReady :: WalletState where
  "notReady = \<lparr>ready = False, sequence = 0, balance = 0, nativeBalance = 0\<rparr>"

definition loadWalletState :: "int \<Rightarrow> ChainQuery \<Rightarrow> State \<Rightarrow> State" where
  "loadWalletState now q st =
     (let st1 = st\<lparr>lastWalletRefresh := now\<rparr>
      in (case q of
            ChainQueryFailed err \<Rightarrow>
              emitLog ERROR (ErrorLoadingWalletState err) (st1\<lparr>walletState := notReady\<rparr>)
          | ChainQuery acc bal nbal \<Rightarrow>
              (case BigInt bal of
                 None \<Rightarrow>
                   emitLog ERROR (ErrorLoadingWalletState (toString (cannotConvert bal)))
                     (st1\<lparr>walletState := notReady\<rparr>)
               | Some b \<Rightarrow>
                   (case BigInt nbal of
                      None \<Rightarrow>
                        emitLog ERROR (ErrorLoadingWalletState (toString (cannotConvert nbal)))
                          (st1\<lparr>walletState := notReady\<rparr>)
                    | Some n \<Rightarrow>
                        (let sq = (case acc of None \<Rightarrow> 0 | Some x \<Rightarrow> x)
                         in emitLog INFO (WalletLoaded (walletAddress st1) b sq)
                              (st1\<lparr>walletState :=
                                     \<lparr>ready = True, sequence = sq, balance = b, nativeBalance = n\<rparr>\<rparr>))))))"

subsection \<open>Rendering an amount\<close>

text \<open>
  \<^verbatim>\<open>readableAmount\<close> computes in JavaScript numbers, that is in IEEE 754 double precision.
  A finite double is \<open>Finite m e\<close>, standing for \<open>m * 2 ^ e\<close>: for a normal number
  \<open>2 ^ 52 \<le> \<bar>m\<bar> < 2 ^ 53\<close> and \<open>- 1074 \<le> e \<le> 971\<close>, for a subnormal one \<open>\<bar>m\<bar> < 2 ^ 52\<close> and
  \<open>e = - 1074\<close>, and zero is \<open>Finite 0 0\<close> (the sign of a zero is not kept: nothing below
  tells the two zeros apart).  The flag of \<open>Infinity\<close> is set for the negative one.
\<close>

datatype double = Finite int int | Infinity bool | NaN

fun bitLength :: "nat \<Rightarrow> nat" where
  "bitLength n = (if n = 0 then 0 else Suc (bitLength (n div 2)))"

declare bitLength.simps [simp del]

definition roundHalfEven :: "nat \<Rightarrow> nat \<Rightarrow> nat" where
  "roundHalfEven p q =
     (let f = p div q; r = p mod q
      in if 2 * r < q then f else if q < 2 * r then f + 1 else if even f then f else f + 1)"

text \<open>
  \<open>roundRatio neg p q\<close> is the double nearest to the fraction \<open>p / q\<close> (with \<open>0 < q\<close>), ties to
  the even significand, with the sign \<open>neg\<close>: every arithmetic operation of IEEE 754 is the
  exact result rounded this way.  \<open>e\<close> is the binary exponent of the fraction and \<open>u\<close> the
  exponent of the last place of the result.
\<close>

definition roundRatio :: "bool \<Rightarrow> nat \<Rightarrow> nat \<Rightarrow> double" where
  "roundRatio neg p q =
     (let d = int (bitLength p) - int (bitLength q);
          e = (if q * 2 ^ nat d \<le> p * 2 ^ nat (- d) then d else d - 1);
          u = max (e - 52) (- 1074);
          n = roundHalfEven (p * 2 ^ nat (- u)) (q * 2 ^ nat u);
          m = (if n = 2 ^ 53 then 2 ^ 52 else n);
          u' = (if n = 2 ^ 53 then u + 1 else u)
      in if n = 0 then Finite 0 0
         else if 971 < u' then Infinity neg
         else Finite (if neg then - int m else int m) u')"

text \<open>\<^verbatim>\<open>Number(amount)\<close> of a bigint.\<close>

definition Number :: "int \<Rightarrow> double" where
  "Number a = roundRatio (a < 0) (nat \<bar>a\<bar>) 1"

text \<open>
  \<^verbatim>\<open>Math.pow(b, d)\<close> for natural numbers, taken as the double nearest to the power (the
  powers of ten up to \<open>10 ^ 22\<close> are doubles themselves).
\<close>

definition Math_pow :: "nat \<Rightarrow> nat \<Rightarrow> double" where
  "Math_pow b d = roundRatio False (b ^ d) 1"

fun divide_double :: "double \<Rightarrow> double \<Rightarrow> double" where
  "divide_double (Finite m e) (Finite m' e') =
     (if m' = 0 then (if m = 0 then NaN else Infinity (m < 0))
      else roundRatio ((m < 0) \<noteq> (m' < 0))
             (nat \<bar>m\<bar> * 2 ^ nat (e - e')) (nat \<bar>m'\<bar> * 2 ^ nat (e' - e)))"
| "divide_double (Finite m e) (Infinity s') = Finite 0 0"
| "divide_double (Infinity s) (Finite m' e') = Infinity (s \<noteq> (m' < 0))"
| "divide_double (Infinity s) (Infinity s') = NaN"
| "divide_double NaN y = NaN"
| "divide_double x NaN = NaN"

fun times_double :: "double \<Rightarrow> double \<Rightarrow> double" where
  "times_double (Finite m e) (Finite m' e') =
     roundRatio ((m < 0) \<noteq> (m' < 0))
       (nat \<bar>m * m'\<bar> * 2 ^ nat (e + e')) (2 ^ nat (- (e + e')))"
| "times_double (Finite m e) (Infinity s') =
     (if m = 0 then NaN else Infinity ((m < 0) \<noteq> s'))"
| "times_double (Infinity s) (Finite m' e') =
     (if m' = 0 then NaN else Infinity (s \<noteq> (m' < 0)))"
| "times_double (Infinity s) (Infinity s') = Infinity (s \<noteq> s')"
| "times_double NaN y = NaN"
| "times_double x NaN = NaN"

text \<open>\<^verbatim>\<open>Math.floor\<close>: the floor of a double is a double.\<close>

fun Math_floor :: "double \<Rightarrow> double" where
  "Math_floor (Finite m e) = Number (if 0 \<le> e then m * 2 ^ nat e else m div 2 ^ nat (- e))"
| "Math_floor x = x"

text \<open>
  \<^verbatim>\<open>Number.prototype.toString()\<close> (ECMAScript, Number::toString with radix 10).  For a
  positive double \<open>x = p / q\<close> it takes the decimal exponent \<open>n\<close> with
  \<open>10 ^ (n - 1) \<le> x < 10 ^ n\<close>, the least number \<open>k\<close> of digits and the \<open>k\<close>-digit number \<open>c\<close>
  such that \<open>c * 10 ^ (n - k)\<close> is read back as \<open>x\<close> (of two such numbers the one closer to
  \<open>x\<close>, the even one when they are as close), and lays the digits out.
\<close>

function leadingZeros :: "nat \<Rightarrow> nat \<Rightarrow> nat" where
  "leadingZeros p q = (if p = 0 \<or> q \<le> p * 10 then 0 else Suc (leadingZeros (p * 10) q))"
  by pat_completeness auto
termination by (relation "measure (\<lambda>(p, q). q - p)") auto

declare leadingZeros.simps [simp del]

definition decimalExponent :: "nat \<Rightarrow> nat \<Rightarrow> int" where
  "decimalExponent p q =
     (if q \<le> p then int (length (natToString (p div q))) else - int (leadingZeros p q))"

definition roundsTo :: "double \<Rightarrow> int \<Rightarrow> nat \<Rightarrow> nat \<Rightarrow> bool" where
  "roundsTo x n k c = (roundRatio False (c * 10 ^ nat (n - int k)) (10 ^ nat (int k - n)) = x)"

definition candidate :: "double \<Rightarrow> nat \<Rightarrow> nat \<Rightarrow> int \<Rightarrow> nat \<Rightarrow> nat option" where
  "candidate x p q n k =
     (let a = p * 10 ^ nat (int k - n); b = q * 10 ^ nat (n - int k);
          lo = a div b; hi = lo + 1; r = a mod b
      in if roundsTo x n k lo
         then (if roundsTo x n k hi
               then (if 2 * r < b \<or> (2 * r = b \<and> even lo) then Some lo else Some hi)
               else Some lo)
         else if roundsTo x n k hi then Some hi
         else None)"

function shortest :: "double \<Rightarrow> nat \<Rightarrow> nat \<Rightarrow> int \<Rightarrow> nat \<Rightarrow> nat \<times> nat" where
  "shortest x p q n k =
     (case candidate x p q n k of
        Some c \<Rightarrow> (c, k)
      | None \<Rightarrow>
          if 17 \<le> k then (roundHalfEven (p * 10 ^ nat (17 - n)) (q * 10 ^ nat (n - 17)), 17)
          else shortest x p q n (Suc k))"
  by pat_completeness auto
termination by (relation "measure (\<lambda>(x, p, q, n, k). 17 - k)") auto

declare shortest.simps [simp del]

definition layout :: "string \<Rightarrow> int \<Rightarrow> string" where
  "layout ds n =
     (let k = int (length ds)
      in if k \<le> n \<and> n \<le> 21 then ds @ replicate (nat (n - k)) CHR ''0''
         else if 0 < n \<and> n \<le> 21 then take (nat n) ds @ ''.'' @ drop (nat n) ds
         else if - 6 < n \<and> n \<le> 0 then ''0.'' @ replicate (nat (- n)) CHR ''0'' @ ds
         else (if k = 1 then ds else hd ds # ''.'' @ tl ds)
              @ ''e'' @ (if n - 1 < 0 then ''-'' else ''+'') @ natToString (nat \<bar>n - 1\<bar>))"

definition positiveToString :: "double \<Rightarrow> nat \<Rightarrow> nat \<Rightarrow> string" where
  "positiveToString x p q =
     (let n = decimalExponent p q;
          (c, k) = shortest x p q n 1
      in if c = 10 ^ k then layout ''1'' (n + 1) else layout (natToString c) n)"

fun Number_toString :: "double \<Rightarrow> string" where
  "Number_toString (Finite m e) =
     (if m = 0 then ''0''
      else (if m < 0 then ''-'' else '''')
           @ positiveToString (Finite \<bar>m\<bar> e) (nat \<bar>m\<bar> * 2 ^ nat e) (2 ^ nat (- e)))"
| "Number_toString (Infinity s) = (if s then ''-Infinity'' else ''Infinity'')"
| "Number_toString NaN = ''NaN''"

text \<open>\<^verbatim>\<open>readableAmount\<close> itself, operation by operation.\<close>

definition readableAmount :: "Config \<Rightarrow> int \<Rightarrow> string" where
  "readableAmount cfg amt =
     (let amountStr =
            Number_toString
              (divide_double
                 (Math_floor
                    (times_double (divide_double (Number amt) (Math_pow 10 (cwDecimals cfg)))
                       (Number 1000)))
                 (Number 1000))
      in amountStr @ '' '' @ cwSymbol cfg)"

text \<open>
  For comparison, the amount divided by \<open>10 ^ cwDecimals\<close> and cut after three fractional
  digits in exact arithmetic, written without trailing zeros.  This definition is the
  reading of the documentation, not a part of the program.
\<close>

definition fractionDigits :: "nat \<Rightarrow> string" where
  "fractionDigits f =
     rev (dropWhile (\<lambda>c. c = CHR ''0'')
            (rev (natToString (f div 100) @ natToString (f div 10 mod 10) @ natToString (f mod 10))))"

definition truncatedAmount :: "Config \<Rightarrow> int \<Rightarrow> string" where
  "truncatedAmount cfg amt =
     (let t = nat amt * 1000 div 10 ^ cwDecimals cfg
      in natToString (t div 1000)
         @ (if t mod 1000 = 0 then '''' else ''.'' @ fractionDigits (t mod 1000))
         @ '' '' @ cwSymbol cfg)"

section \<open>CwClaimNotificationClient\<close>

text \<open>
  The static part of the notification client.  A subscriber is represented by the claim
  index it waits for.  \<^verbatim>\<open>broadcastClaimNotification\<close> stores the data, walks the subscribers
  from the last to the first, delivers the update to each, and a subscriber whose claim
  index is reached (\<^verbatim>\<open>data.confirmedIdx >= this.claimIdx\<close>) is killed, which removes it
  from the list.
\<close>

definition broadcastClaimNotification :: "IClaimNotificationData \<Rightarrow> State \<Rightarrow> State" where
  "broadcastClaimNotification data st =
     st\<lparr>hubLastNotificationData := Some data,
        broadcasts := broadcasts st @ [data],
        delivered := delivered st @ map (\<lambda>c. (c, data)) (rev (activeClients st)),
        activeClients := filter (\<lambda>c. \<not> confirmedIdx data \<ge> c) (activeClients st)\<rparr>"

definition resetClaimNotification :: "State \<Rightarrow> State" where
  "resetClaimNotification st = st\<lparr>hubLastNotificationData := None\<rparr>"

section \<open>CwClaimManager\<close>

definition updClaim :: "nat \<Rightarrow> (ClaimData \<Rightarrow> ClaimData) \<Rightarrow> State \<Rightarrow> State" where
  "updClaim r f st = st\<lparr>heap := (heap st)(r := (heap st r)\<lparr>claim := f (claim (heap st r))\<rparr>)\<rparr>"

text \<open>
  \<^verbatim>\<open>updateClaimStatus\<close> persists the claim record (\<^verbatim>\<open>updateClaimData\<close>).  The module hooks,
  the outflow module and the statistics log that it notifies on \<^verbatim>\<open>CONFIRMED\<close> are external
  and leave the state of the core alone.
\<close>

definition updateClaimStatus :: "nat \<Rightarrow> State \<Rightarrow> State" where
  "updateClaimStatus r st =
     st\<lparr>dbClaimData := dbClaimData st @ [(session (heap st r), claim (heap st r))]\<rparr>"

definition getQueuedAmountFrom :: "string list \<Rightarrow> int \<Rightarrow> error + int" where
  "getQueuedAmountFrom amounts start =
     fold (\<lambda>a acc. case acc of
                     Inl e \<Rightarrow> Inl e
                   | Inr totalPending \<Rightarrow>
                       (case BigInt a of None \<Rightarrow> Inl (cannotConvert a) | Some v \<Rightarrow> Inr (totalPending + v)))
          amounts (Inr start)"

definition getQueuedAmount :: "State \<Rightarrow> error + int" where
  "getQueuedAmount st = getQueuedAmountFrom (map (\<lambda>r. amount (heap st r)) (claimTxQueue st)) 0"

subsection \<open>Confirmation watcher\<close>

text \<open>
  \<^verbatim>\<open>awaitTxConfirmation\<close> runs up to its \<^verbatim>\<open>await client.getTx(...)\<close> inside its caller: with
  no transaction hash it fails at once (its \<^verbatim>\<open>catch\<close> and \<^verbatim>\<open>finally\<close> blocks run there),
  otherwise the watcher is outstanding.  \<^verbatim>\<open>txConfirmation\<close> is the rest of the function, run
  when the query client answers.  The \<^verbatim>\<open>finally\<close> block files the claim in the history
  under the wallet's current sequence number; the eviction timer is \<open>evictHistory\<close>.
\<close>

definition dropPending :: "nat \<Rightarrow> State \<Rightarrow> State" where
  "dropPending r st =
     (case txHash (claim (heap st r)) of
        None \<Rightarrow> st
      | Some h \<Rightarrow> if h \<noteq> [] then st\<lparr>pendingTxQueue := fmdrop h (pendingTxQueue st)\<rparr> else st)"

definition dropSession :: "nat \<Rightarrow> State \<Rightarrow> State" where
  "dropSession r st = st\<lparr>claimTxDict := fmdrop (session (heap st r)) (claimTxDict st)\<rparr>"

definition keepHistory :: "nat \<Rightarrow> State \<Rightarrow> State" where
  "keepHistory r st =
     st\<lparr>historyTxDict := fmupd (sequence (walletState st)) r (historyTxDict st)\<rparr>"

definition evictHistory :: "int \<Rightarrow> State \<Rightarrow> State" where
  "evictHistory sq st = st\<lparr>historyTxDict := fmdrop sq (historyTxDict st)\<rparr>"

definition confirmationFailed :: "error \<Rightarrow> nat \<Rightarrow> State \<Rightarrow> State" where
  "confirmationFailed err r st =
     (let st1 = emitLog WARNING (TransactionFailed (target (heap st r)) (toString err)) st;
          st2 = dropPending r st1;
          st3 = dropSession r st2;
          st4 = updClaim r (\<lambda>c. c\<lparr>claimStatus := FAILED,
                                   txError := Some (''Transaction Error: '' @ toString err)\<rparr>) st3;
          st5 = updateClaimStatus r st4
      in keepHistory r st5)"

definition awaitTxConfirmation :: "nat \<Rightarrow> State \<Rightarrow> State" where
  "awaitTxConfirmation r st =
     (if \<not> truthy (txHash (claim (heap st r)))
      then confirmationFailed (Error ''Transaction hash is undefined'') r st
      else st\<lparr>watchers := watchers st @ [r]\<rparr>)"

definition txConfirmation :: "Config \<Rightarrow> nat \<Rightarrow> GetTxResult \<Rightarrow> State \<Rightarrow> State" where
  "txConfirmation cfg r tx st =
     (let st0 = st\<lparr>watchers := remove1 r (watchers st)\<rparr>
      in (case tx of
            GetTxFailed err \<Rightarrow> confirmationFailed (Error err) r st0
          | TxNotFound \<Rightarrow> confirmationFailed (Error ''Transaction failed'') r st0
          | TxFound code height \<Rightarrow>
              if code \<noteq> 0 then confirmationFailed (Error ''Transaction failed'') r st0
              else
                let st1 = dropPending r st0;
                    st2 = dropSession r st1;
                    st3 = updClaim r (\<lambda>c. c\<lparr>txHeight := Some height,
                                             txFee := Some (cwGasAmount cfg)\<rparr>) st2;
                    st4 = st3\<lparr>lastConfirmedClaimTxIdx := claimIdx (claim (heap st3 r))\<rparr>;
                    st5 = updClaim r (\<lambda>c. c\<lparr>claimStatus := CONFIRMED\<rparr>) st4;
                    st6 = updateClaimStatus r st5
                in keepHistory r st6))"

text \<open>A sequence of watcher completions, in the order in which they complete.\<close>

fun txConfirmations :: "Config \<Rightarrow> (nat \<times> GetTxResult) list \<Rightarrow> State \<Rightarrow> State" where
  "txConfirmations cfg [] st = st"
| "txConfirmations cfg (e # es) st = txConfirmations cfg es (txConfirmation cfg (fst e) (snd e) st)"

text \<open>
  The claim indices of the completions in \<open>es\<close> that confirm (a transaction found with
  code 0), in completion order.
\<close>

definition confirmedIdxs :: "State \<Rightarrow> (nat \<times> GetTxResult) list \<Rightarrow> int list" where
  "confirmedIdxs st es =
     map (\<lambda>e. claimIdx (claim (heap st (fst e))))
       (filter (\<lambda>e. case snd e of TxFound code height \<Rightarrow> code = 0 | _ \<Rightarrow> False) es)"

subsection \<open>Queue processing\<close>

text \<open>
  \<^verbatim>\<open>processQueueTx\<close>.  The two wallet checks precede the \<^verbatim>\<open>try\<close>, so a \<^verbatim>\<open>BigInt\<close> that
  cannot parse the minimum gas amount escapes to the caller (\<open>Some\<close> in the first component);
  everything thrown by \<^verbatim>\<open>sendTokens\<close> is caught and fails the claim.
\<close>

definition failClaim :: "string \<Rightarrow> nat \<Rightarrow> State \<Rightarrow> State" where
  "failClaim msg r st =
     updateClaimStatus r (updClaim r (\<lambda>c. c\<lparr>claimStatus := FAILED, txError := Some msg\<rparr>) st)"

definition processQueueTx :: "Config \<Rightarrow> SigningClient \<Rightarrow> nat \<Rightarrow> State \<Rightarrow> error option \<times> State" where
  "processQueueTx cfg client r st =
     (if \<not> ready (walletState st)
      then (None, failClaim ''Network RPC is currently unreachable.'' r st)
      else
        (case BigInt (cwMinGasAmount cfg) of
           None \<Rightarrow> (Some (cannotConvert (cwMinGasAmount cfg)), st)
         | Some minGas \<Rightarrow>
             if nativeBalance (walletState st) \<le> minGas
             then (None, failClaim ''Faucet wallet is out of gas funds.'' r st)
             else
               let st1 = updClaim r (\<lambda>c. c\<lparr>claimStatus := PROCESSING\<rparr>) st;
                   (res, st2) = sendTokens cfg client (target (heap st1 r)) (amount (heap st1 r)) st1
               in (case res of
                     Inl ex \<Rightarrow> (None, failClaim (''Processing Exception: '' @ toString ex) r st2)
                   | Inr tr \<Rightarrow>
                       (let st3 = updClaim r (\<lambda>c. c\<lparr>txHash := Some (resTxHash tr)\<rparr>) st2;
                            st4 = st3\<lparr>pendingTxQueue := fmupd (resTxHash tr) r (pendingTxQueue st3)\<rparr>;
                            st5 = emitLog INFO
                                    (SubmittedClaimTx (session (heap st4 r)) (amount (heap st4 r))
                                       (target (heap st4 r)) (resTxHash tr)) st4;
                            st6 = updClaim r (\<lambda>c. c\<lparr>claimStatus := PENDING\<rparr>) st5;
                            st7 = updateClaimStatus r st6
                        in (None, awaitTxConfirmation r st7)))))"

text \<open>
  One iteration of the \<^verbatim>\<open>while\<close> loop of \<^verbatim>\<open>processQueue\<close>: \<open>None\<close> when the loop ends (its
  condition is false, or the gas gate breaks out of it), otherwise the state after the
  iteration together with the exception that left the loop, if any.  \<^verbatim>\<open>walletState\<close> is
  fetched once before the loop; \<^verbatim>\<open>sendTokens\<close> debits that same object in place, so the
  gate of every iteration reads the debited balances.
\<close>

definition processQueueStep :: "Config \<Rightarrow> SigningClient \<Rightarrow> State \<Rightarrow> (error option \<times> State) option" where
  "processQueueStep cfg client st =
     (if int (fcard (fmdom (pendingTxQueue st))) < cwMaxPending cfg \<and> claimTxQueue st \<noteq> []
      then
        if \<not> ready (walletState st) then None
        else
          (case BigInt (cwMinGasAmount cfg) of
             None \<Rightarrow> Some (Some (cannotConvert (cwMinGasAmount cfg)), st)
           | Some minGas \<Rightarrow>
               if nativeBalance (walletState st) \<le> minGas then None
               else
                 let claimTx = hd (claimTxQueue st);
                     st1 = st\<lparr>claimTxQueue := tl (claimTxQueue st)\<rparr>;
                     st2 = st1\<lparr>lastProcessedClaimTxIdx := claimIdx (claim (heap st1 claimTx))\<rparr>
                 in Some (processQueueTx cfg client claimTx st2))
      else None)"

text \<open>
  The \<^verbatim>\<open>while\<close> loop.  Every iteration takes the head off the queue and
  \<^verbatim>\<open>processQueueTx\<close> leaves the queue alone, so the loop ends.
\<close>

function processQueueLoop :: "Config \<Rightarrow> SigningClient \<Rightarrow> State \<Rightarrow> error option \<times> State" where
  "processQueueLoop cfg client st =
     (case processQueueStep cfg client st of
        None \<Rightarrow> (None, st)
      | Some (Some ex, st') \<Rightarrow> (Some ex, st')
      | Some (None, st') \<Rightarrow> processQueueLoop cfg client st')"
  by pat_completeness auto
termination
proof (relation "measure (\<lambda>(cfg, client, st). length (claimTxQueue st))")
  show "wf (measure (\<lambda>(cfg, client, st). length (claimTxQueue st)))" by simp
next
  fix cfg client st x2 x1 st'
  assume a: "processQueueStep cfg client st = Some x2" "(x1, st') = x2" "x1 = None"
  have send: "\<And>c r a s res s'. sendTokens cfg c r a s = (res, s') \<Longrightarrow> claimTxQueue s' = claimTxQueue s"
    by (auto simp: sendTokens_def Let_def split: if_splits ChainResult.splits option.splits)
  have failed: "\<And>e r s. claimTxQueue (confirmationFailed e r s) = claimTxQueue s"
    by (simp add: confirmationFailed_def keepHistory_def updateClaimStatus_def updClaim_def
        dropSession_def dropPending_def emitLog_def Let_def split: option.splits)
  have fail: "\<And>m r s. claimTxQueue (failClaim m r s) = claimTxQueue s"
    by (simp add: failClaim_def updateClaimStatus_def updClaim_def)
  have await: "\<And>r s. claimTxQueue (awaitTxConfirmation r s) = claimTxQueue s"
    by (simp add: awaitTxConfirmation_def failed)
  have tx: "\<And>r s ex s'. processQueueTx cfg client r s = (ex, s') \<Longrightarrow> claimTxQueue s' = claimTxQueue s"
    by (auto simp: processQueueTx_def fail await updateClaimStatus_def updClaim_def emitLog_def
         Let_def split: if_splits option.splits sum.splits prod.splits dest!: send)
  from a have "claimTxQueue st \<noteq> [] \<and> claimTxQueue st' = tl (claimTxQueue st)"
    by (auto simp: processQueueStep_def Let_def split: if_splits option.splits dest!: tx)
  then show "((cfg, client, st'), cfg, client, st) \<in> measure (\<lambda>(cfg, client, st). length (claimTxQueue st))"
    by (cases "claimTxQueue st") auto
qed

declare processQueueLoop.simps [simp del]

text \<open>
  \<^verbatim>\<open>processQueue\<close>, one tick: the single-flight flag, the loop, then the progress
  notification, compared with the manager's own field \<^verbatim>\<open>lastNotificationData\<close>.  An
  exception from the loop is logged and skips the notification.
\<close>

definition notificationChanged :: "State \<Rightarrow> bool" where
  "notificationChanged st =
     (case lastNotificationData st of
        None \<Rightarrow> True
      | Some d \<Rightarrow> processedIdx d \<noteq> lastProcessedClaimTxIdx st
                  \<or> confirmedIdx d \<noteq> lastConfirmedClaimTxIdx st)"

definition processQueue :: "Config \<Rightarrow> SigningClient \<Rightarrow> State \<Rightarrow> State" where
  "processQueue cfg client st =
     (if queueProcessing st then st
      else
        let st0 = st\<lparr>queueProcessing := True\<rparr>;
            (ex, st1) = processQueueLoop cfg client st0;
            st2 = (case ex of
                     Some e \<Rightarrow> emitLog ERROR (QueueProcessingException (toString e)) st1
                   | None \<Rightarrow>
                       if notificationChanged st1
                       then broadcastClaimNotification
                              \<lparr>processedIdx = lastProcessedClaimTxIdx st1,
                               confirmedIdx = lastConfirmedClaimTxIdx st1\<rparr> st1
                       else st1)
        in st2\<lparr>queueProcessing := False\<rparr>)"

text \<open>
  The gate of the loop (wallet ready and native balance above the minimum gas amount), the
  number of keys of the pending map, and the fields that sending one claim (\<open>tickFrame\<close>)
  and a whole loop (\<open>loopFrame\<close>) leave as they are.
\<close>

definition gasGate :: "Config \<Rightarrow> State \<Rightarrow> bool" where
  "gasGate cfg st =
     (ready (walletState st)
      \<and> (case BigInt (cwMinGasAmount cfg) of
            None \<Rightarrow> False
          | Some minGas \<Rightarrow> minGas < nativeBalance (walletState st)))"

definition pendingCount :: "State \<Rightarrow> int" where
  "pendingCount st = int (fcard (fmdom (pendingTxQueue st)))"

definition tickFrame :: "State \<Rightarrow> State \<Rightarrow> bool" where
  "tickFrame st st' =
     (claimTxQueue st' = claimTxQueue st
      \<and> lastNotificationData st' = lastNotificationData st
      \<and> lastProcessedClaimTxIdx st' = lastProcessedClaimTxIdx st
      \<and> lastConfirmedClaimTxIdx st' = lastConfirmedClaimTxIdx st
      \<and> queueProcessing st' = queueProcessing st
      \<and> broadcasts st' = broadcasts st
      \<and> hubLastNotificationData st' = hubLastNotificationData st
      \<and> lastClaimTxIdx st' = lastClaimTxIdx st)"

definition loopFrame :: "State \<Rightarrow> State \<Rightarrow> bool" where
  "loopFrame st st' =
     (lastNotificationData st' = lastNotificationData st
      \<and> lastConfirmedClaimTxIdx st' = lastConfirmedClaimTxIdx st
      \<and> queueProcessing st' = queueProcessing st
      \<and> broadcasts st' = broadcasts st
      \<and> hubLastNotificationData st' = hubLastNotificationData st
      \<and> lastClaimTxIdx st' = lastClaimTxIdx st)"

subsection \<open>Startup recovery\<close>














subsection \<open>Creating a claim\<close>

text \<open>
  \<^verbatim>\<open>createSessionClaim\<close>.  The module hook chain is external: it may reject with a
  \<^verbatim>\<open>FaucetError\<close>, throw anything else (given by its \<^verbatim>\<open>toString()\<close>), or return, having
  possibly changed the \<^verbatim>\<open>ClaimInfo\<close> it was handed.  \<open>dbError\<close> is the rejection of
  \<^verbatim>\<open>updateSession\<close>, if any, and \<open>now\<close> the clock in seconds.  The result is the reference
  of the new \<^verbatim>\<open>ClaimInfo\<close> and the session data as updated.  The text of the
  \<^verbatim>\<open>NOT_CLAIMABLE\<close> message leaves out the interpolated state.
\<close>

definition startsWith :: "string \<Rightarrow> string \<Rightarrow> bool" where
  "startsWith s p = (take (length p) s = p)"

definition newClaimInfo :: "int \<Rightarrow> FaucetSessionStoreData \<Rightarrow> State \<Rightarrow> ClaimInfo" where
  "newClaimInfo now sessionData st =
     \<lparr>session = sessionId sessionData, target = targetAddr sessionData,
      amount = dropAmount sessionData,
      claim = \<lparr>claimIdx = lastClaimTxIdx st, claimStatus = QUEUE, claimTime = now,
               txHash = None, txHeight = None, txFee = None, txError = None\<rparr>\<rparr>"

definition createSessionClaim ::
  "Config \<Rightarrow> (ClaimInfo \<Rightarrow> 'u \<Rightarrow> HookResult) \<Rightarrow> string option \<Rightarrow> int \<Rightarrow> FaucetSessionStoreData \<Rightarrow> 'u
     \<Rightarrow> State \<Rightarrow> (error + nat \<times> FaucetSessionStoreData) \<times> State" where
  "createSessionClaim cfg processActionHooks dbError now sessionData userInput st =
     (if status sessionData \<noteq> CLAIMABLE
      then (Inl (FaucetError ''NOT_CLAIMABLE'' ''Cannot claim session: not claimable''), st)
      else
        (case BigInt (dropAmount sessionData) of
           None \<Rightarrow> (Inl (cannotConvert (dropAmount sessionData)), st)
         | Some dropAmt \<Rightarrow>
        (case BigInt (cwMinAmount cfg) of
           None \<Rightarrow> (Inl (cannotConvert (cwMinAmount cfg)), st)
         | Some minAmount \<Rightarrow>
        if dropAmt < minAmount
        then (Inl (FaucetError ''AMOUNT_TOO_LOW'' ''Drop amount lower than minimum''), st)
        else
        (case BigInt (cwMaxAmount cfg) of
           None \<Rightarrow> (Inl (cannotConvert (cwMaxAmount cfg)), st)
         | Some maxAmount \<Rightarrow>
        if dropAmt > maxAmount
        then (Inl (FaucetError ''AMOUNT_TOO_HIGH'' ''Drop amount higher than maximum''), st)
        else if \<not> startsWith (targetAddr sessionData) (cwAddressPrefix cfg)
        then (Inl (FaucetError ''INVALID_ADDRESS'' ''Invalid address format''), st)
        else if fmlookup (claimTxDict st) (sessionId sessionData) \<noteq> None
        then (Inl (FaucetError ''RACE_CLAIMING''
                     ''Cannot claim session: already claiming (race condition)''), st)
        else
          let claimInfo = newClaimInfo now sessionData st;
              st1 = st\<lparr>lastClaimTxIdx := lastClaimTxIdx st + 1\<rparr>
          in (case processActionHooks claimInfo userInput of
                HookFaucetError code msg \<Rightarrow> (Inl (FaucetError code msg), st1)
              | HookException ex \<Rightarrow>
                  (Inl (FaucetError ''INTERNAL_ERROR'' (''claimSession failed: '' @ ex)), st1)
              | HookOk claimInfo' \<Rightarrow>
                  (let sessionData' = sessionData\<lparr>status := CLAIMING, dropAmount := amount claimInfo',
                                                   sessionClaim := Some (claim claimInfo')\<rparr>
                   in (case dbError of
                         Some err \<Rightarrow> (Inl (Error err), st1)
                       | None \<Rightarrow>
                           (let r = nextRef st1;
                                st2 = st1\<lparr>heap := (heap st1)(r := claimInfo'), nextRef := Suc r\<rparr>;
                                st3 = st2\<lparr>claimTxQueue := claimTxQueue st2 @ [r]\<rparr>;
                                st4 = st3\<lparr>claimTxDict := fmupd (session claimInfo') r (claimTxDict st3)\<rparr>
                            in (Inr (r, sessionData'), st4)))))))))"

text \<open>The four preconditions of \<^verbatim>\<open>createSessionClaim\<close> taken together.\<close>

definition claimPreconditions :: "Config \<Rightarrow> FaucetSessionStoreData \<Rightarrow> State \<Rightarrow> bool" where
  "claimPreconditions cfg sessionData st =
     (status sessionData = CLAIMABLE
      \<and> (case (BigInt (dropAmount sessionData), BigInt (cwMinAmount cfg), BigInt (cwMaxAmount cfg)) of
            (Some d, Some lo, Some hi) \<Rightarrow> lo \<le> d \<and> d \<le> hi
          | _ \<Rightarrow> False)
      \<and> startsWith (targetAddr sessionData) (cwAddressPrefix cfg)
      \<and> fmlookup (claimTxDict st) (sessionId sessionData) = None)"

section \<open>CwWalletRefill\<close>

text \<open>
  \<^verbatim>\<open>tryRefillWallet\<close>.  \<open>now\<close> and \<open>now2\<close> are the two readings of the clock,
  \<open>unclaimedBalance\<close> the answer of the session manager, \<open>now3\<close> and \<open>q\<close> the clock and the
  chain's answer for the final \<^verbatim>\<open>loadWalletState\<close>.  \<open>chooseRefillAction\<close> is the decision
  block, \<open>refillTx\<close> the inner and \<open>refillAttempt\<close> the outer \<^verbatim>\<open>try\<close> body.
  \<^verbatim>\<open>BigInt(undefined)\<close> is a \<^verbatim>\<open>TypeError\<close>.  \<^verbatim>\<open>processWalletRefill\<close> only adds the
  single-flight promise.
\<close>

datatype RefillAction = Refill | Overflow

fun actionName :: "RefillAction \<Rightarrow> string" where
  "actionName Refill = ''refill''"
| "actionName Overflow = ''overflow''"

definition belowThreshold :: "Config \<Rightarrow> int \<Rightarrow> error + RefillAction option" where
  "belowThreshold cfg availableBalance =
     (case cwRefillThreshold cfg of
        None \<Rightarrow> Inl (TypeError ''Cannot convert undefined to a BigInt'')
      | Some t \<Rightarrow>
          (case BigInt t of
             None \<Rightarrow> Inl (cannotConvert t)
           | Some threshold \<Rightarrow> if availableBalance < threshold then Inr (Some Refill) else Inr None))"

definition chooseRefillAction :: "Config \<Rightarrow> int \<Rightarrow> error + RefillAction option" where
  "chooseRefillAction cfg availableBalance =
     (if truthy (cwRefillOverflowAmount cfg)
      then
        (case BigInt (strOf (cwRefillOverflowAmount cfg)) of
           None \<Rightarrow> Inl (cannotConvert (strOf (cwRefillOverflowAmount cfg)))
         | Some overflowAt \<Rightarrow>
             if availableBalance > overflowAt then Inr (Some Overflow)
             else belowThreshold cfg availableBalance)
      else belowThreshold cfg availableBalance)"

definition executeRefill :: "Config \<Rightarrow> SigningClient \<Rightarrow> State \<Rightarrow> (error + TransactionResult) \<times> State" where
  "executeRefill cfg client st =
     (if \<not> truthy (cwRefillContract cfg) \<or> \<not> truthy (cwRefillAmount cfg)
      then (Inl (Error ''Refill configuration missing''), st)
      else executeContract client (strOf (cwRefillContract cfg))
             (Withdraw (strOf (cwRefillAmount cfg))) (gasFee cfg) st)"

definition executeOverflow ::
  "Config \<Rightarrow> SigningClient \<Rightarrow> string \<Rightarrow> State \<Rightarrow> (error + TransactionResult) \<times> State" where
  "executeOverflow cfg client amt st =
     (if \<not> truthy (cwRefillContract cfg)
      then (Inl (Error ''Refill configuration missing''), st)
      else executeContract client (strOf (cwRefillContract cfg)) Deposit
             (StdFee [Coin (cwDenom cfg) amt] (cwGasLimit cfg)) st)"

definition refillTx ::
  "Config \<Rightarrow> SigningClient \<Rightarrow> RefillAction \<Rightarrow> int \<Rightarrow> int \<Rightarrow> int \<Rightarrow> ChainQuery \<Rightarrow> State
     \<Rightarrow> error option \<times> State" where
  "refillTx cfg client action availableBalance now2 now3 q st =
     (let (txResult, st1) =
            (case action of
               Refill \<Rightarrow> executeRefill cfg client st
             | Overflow \<Rightarrow>
                 (case BigInt (strOf (cwRefillOverflowAmount cfg)) of
                    None \<Rightarrow> (Inl (cannotConvert (strOf (cwRefillOverflowAmount cfg))), st)
                  | Some overflowAt \<Rightarrow>
                      executeOverflow cfg client (bigintToString (availableBalance - overflowAt)) st))
      in (case txResult of
            Inl e \<Rightarrow> (Some e, st1)
          | Inr tr \<Rightarrow>
              if resTxHash tr = [] then (Some (Error ''No transaction hash returned''), st1)
              else
                let st2 = st1\<lparr>lastRefillTime := now2\<rparr>;
                    st3 = emitLog INFO (SendingRefillTx (actionName action) (resTxHash tr)) st2;
                    st4 = loadWalletState now3 q st3
                in (None, emitLog INFO (RefillSucceeded (actionName action)) st4)))"

definition refillAttempt ::
  "Config \<Rightarrow> SigningClient \<Rightarrow> int \<Rightarrow> int \<Rightarrow> int \<Rightarrow> ChainQuery \<Rightarrow> State \<Rightarrow> error option \<times> State" where
  "refillAttempt cfg client unclaimedBalance now2 now3 q st =
     (if \<not> ready (walletState st) then (Some (Error ''Wallet not ready''), st)
      else
        (case getQueuedAmount st of
           Inl e \<Rightarrow> (Some e, st)
         | Inr queuedAmount \<Rightarrow>
             (let availableBalance = balance (walletState st) - unclaimedBalance - queuedAmount
              in (case chooseRefillAction cfg availableBalance of
                    Inl e \<Rightarrow> (Some e, st)
                  | Inr None \<Rightarrow> (None, st)
                  | Inr (Some action) \<Rightarrow>
                      (let st1 = st\<lparr>isRefilling := True\<rparr>;
                           (ex, st2) = refillTx cfg client action availableBalance now2 now3 q st1
                       in (case ex of
                             None \<Rightarrow> (None, st2)
                           | Some e \<Rightarrow>
                               (Some e, emitLog WARNING
                                          (RefillTxFailed (actionName action) (toString e)) st2)))))))"

definition cooldownsPassed :: "Config \<Rightarrow> int \<Rightarrow> State \<Rightarrow> bool" where
  "cooldownsPassed cfg now st =
     (\<not> (lastRefillTry st \<noteq> 0 \<and> now - lastRefillTry st < 60)
      \<and> \<not> (lastRefillTime st \<noteq> 0 \<and> cwRefillCooldown cfg \<noteq> 0
            \<and> now - lastRefillTime st < cwRefillCooldown cfg))"

definition tryRefillWallet ::
  "Config \<Rightarrow> SigningClient \<Rightarrow> int \<Rightarrow> int \<Rightarrow> int \<Rightarrow> int \<Rightarrow> ChainQuery \<Rightarrow> State \<Rightarrow> State" where
  "tryRefillWallet cfg client now unclaimedBalance now2 now3 q st =
     (if \<not> cwRefillEnabled cfg \<or> \<not> truthy (cwRefillContract cfg) then st
      else if lastRefillTry st \<noteq> 0 \<and> now - lastRefillTry st < 60 then st
      else if lastRefillTime st \<noteq> 0 \<and> cwRefillCooldown cfg \<noteq> 0
              \<and> now - lastRefillTime st < cwRefillCooldown cfg then st
      else
        let st1 = st\<lparr>lastRefillTry := now\<rparr>;
            (ex, st2) = refillAttempt cfg client unclaimedBalance now2 now3 q st1;
            st3 = (case ex of
                     None \<Rightarrow> st2
                   | Some e \<Rightarrow> emitLog WARNING (RefillAttemptFailed (toString e)) st2)
        in st3\<lparr>isRefilling := False\<rparr>)"

section \<open>Example configuration and states\<close>

definition exampleConfig :: Config where
  "exampleConfig =
     \<lparr>cwAddressPrefix = ''cosmos'', cwDenom = ''uatom'', cwIsNativeToken = True,
      cwContractAddress = ''cosmos1token'', cwDecimals = 3, cwSymbol = ''SYM'',
      cwGasAmount = ''200'', cwGasLimit = ''200000'',
      cwMinGasAmount = ''1000'', cwMinAmount = ''10'', cwMaxAmount = ''5000'', cwMaxPending = 2,
      cwRefillEnabled = True, cwRefillContract = Some ''cosmos1treasury'',
      cwRefillAmount = Some ''50000'', cwRefillThreshold = Some ''20000'',
      cwRefillOverflowAmount = Some ''100000'', cwRefillCooldown = 3600\<rparr>"

definition emptyClaim :: ClaimInfo where
  "emptyClaim =
     \<lparr>session = [], target = [], amount = [],
      claim = \<lparr>claimIdx = 0, claimStatus = QUEUE, claimTime = 0, txHash = None, txHeight = None,
               txFee = None, txError = None\<rparr>\<rparr>"

definition freshState :: "WalletState \<Rightarrow> State" where
  "freshState w =
     \<lparr>walletState = w, walletAddress = ''cosmos1faucet'', lastWalletRefresh = 0, chainCalls = [],
      heap = (\<lambda>_. emptyClaim), nextRef = 0, initialized = False, claimTxDict = fmempty,
      claimTxQueue = [], pendingTxQueue = fmempty, historyTxDict = fmempty,
      queueProcessing = False, lastClaimTxIdx = 1, lastProcessedClaimTxIdx = 0,
      lastConfirmedClaimTxIdx = 0, lastNotificationData = None, watchers = [], activeClients = [],
      hubLastNotificationData = None, broadcasts = [], delivered = [], lastRefillTime = 0,
      lastRefillTry = 0, isRefilling = False, logs = [], dbClaimData = []\<rparr>"

definition exampleSession :: FaucetSessionStoreData where
  "exampleSession =
     \<lparr>sessionId = ''S1'', status = CLAIMABLE, targetAddr = ''cosmos1alice'', dropAmount = ''500'',
      sessionClaim = None\<rparr>"

definition acceptHooks :: "ClaimInfo \<Rightarrow> unit \<Rightarrow> HookResult" where
  "acceptHooks claimInfo userInput = HookOk claimInfo"

definition rejectHooks :: "ClaimInfo \<Rightarrow> unit \<Rightarrow> HookResult" where
  "rejectHooks claimInfo userInput = HookFaucetError ''CLAIM_LIMIT'' ''Too many claims''"

definition secondSession :: FaucetSessionStoreData where
  "secondSession =
     \<lparr>sessionId = ''S2'', status = CLAIMABLE, targetAddr = ''cosmos1bob'', dropAmount = ''20'',
      sessionClaim = None\<rparr>"






definition readyWallet :: WalletState where
  "readyWallet = \<lparr>ready = True, sequence = 7, balance = 1000000, nativeBalance = 1000000\<rparr>"

definition acceptAll :: SigningClient where
  "acceptAll n call = TxOk (''TX'' @ natToString n) (100 + int n)"

text \<open>
  Two sessions claim on a fresh manager with a funded wallet (\<open>twoQueued\<close>); the next
  tick sends both (\<open>twoPending\<close>).
\<close>

definition claim1 :: ClaimInfo where
  "claim1 =
     \<lparr>session = ''S1'', target = ''cosmos1alice'', amount = ''500'',
      claim = \<lparr>claimIdx = 1, claimStatus = QUEUE, claimTime = 1700000000, txHash = None,
               txHeight = None, txFee = None, txError = None\<rparr>\<rparr>"

definition claim2 :: ClaimInfo where
  "claim2 =
     \<lparr>session = ''S2'', target = ''cosmos1bob'', amount = ''20'',
      claim = \<lparr>claimIdx = 2, claimStatus = QUEUE, claimTime = 1700000001, txHash = None,
               txHeight = None, txFee = None, txError = None\<rparr>\<rparr>"

definition twoQueued :: State where
  "twoQueued =
     snd (createSessionClaim exampleConfig acceptHooks None 1700000001 secondSession ()
       (snd (createSessionClaim exampleConfig acceptHooks None 1700000000 exampleSession ()
          (freshState readyWallet))))"

definition twoPending :: State where
  "twoPending = processQueue exampleConfig acceptAll twoQueued"

text \<open>
  Gas exhaustion: the native balance equals the minimum gas amount exactly, and session
  \<open>S2\<close> has claimed.
\<close>

definition starvedWallet :: WalletState where
  "starvedWallet = \<lparr>ready = True, sequence = 7, balance = 1000000, nativeBalance = 1000\<rparr>"

definition starved :: State where
  "starved =
     snd (createSessionClaim exampleConfig acceptHooks None 1700000001 secondSession ()
            (freshState starvedWallet))"

section \<open>Properties of CwWalletManager\<close>

lemma sendTokens_ok:
  assumes "sendTokens cfg client r amt st = (Inr res, st')"
  shows "\<exists>a g. BigInt amt = Some a \<and> BigInt (cwGasAmount cfg) = Some g
           \<and> sequence (walletState st') = sequence (walletState st) + 1
           \<and> balance (walletState st') = balance (walletState st) - a
           \<and> nativeBalance (walletState st') =
               nativeBalance (walletState st) - g - (if cwIsNativeToken cfg then a else 0)
           \<and> ready (walletState st') = ready (walletState st)"
  using assms
  by (auto simp: sendTokens_def Let_def split: if_splits ChainResult.splits option.splits)

lemma sendTokensRun_length:
  "sendTokensRun cfg client reqs st = (ress, st') \<Longrightarrow> length ress = length reqs"
  by (induction reqs arbitrary: st ress st') (auto simp: Let_def split: prod.splits)

lemma sendTokensRun_sequence:
  "sendTokensRun cfg client reqs st = (ress, st') \<Longrightarrow> \<forall>x \<in> set ress. \<not> isl x
     \<Longrightarrow> sequence (walletState st') = sequence (walletState st) + int (length reqs)"
proof (induction reqs arbitrary: st ress st')
  case Nil
  then show ?case by simp
next
  case (Cons req reqs)
  obtain res st1 where one: "sendTokens cfg client (fst req) (snd req) st = (res, st1)"
    by (cases "sendTokens cfg client (fst req) (snd req) st")
  obtain ress1 st2 where rest: "sendTokensRun cfg client reqs st1 = (ress1, st2)"
    by (cases "sendTokensRun cfg client reqs st1")
  from Cons.prems(1) one rest have eq: "ress = res # ress1" "st' = st2"
    by (simp_all add: Let_def)
  from Cons.prems(2) eq obtain r where r: "res = Inr r"
    by (cases res) auto
  from sendTokens_ok[OF one[unfolded r]]
  have s1: "sequence (walletState st1) = sequence (walletState st) + 1" by blast
  from Cons.IH[OF rest] Cons.prems(2) eq
  have "sequence (walletState st2) = sequence (walletState st1) + int (length reqs)" by simp
  with s1 eq show ?case by simp
qed

lemmas BigInt_eval = BigInt_def trim_def isWhiteSpace_def parseNat_def digitVal_def

lemmas example_defs = exampleConfig_def freshState_def readyWallet_def acceptAll_def

text \<open>
  Claim C6.  A successful \<^verbatim>\<open>sendTokens\<close> call leaves the wallet snapshot with the sequence
  number one higher, the token balance lower by the amount sent (for native and contract
  tokens alike) and the native balance lower by the gas amount, and by the amount as well
  when the token is native.  Hence a run of \<open>n\<close> calls that all succeed, with nothing in
  between, ends with the sequence number \<open>n\<close> higher than it started.
\<close>

theorem sendTokens_accounting:
  "(sendTokens cfg client r amt st = (Inr res, st') \<longrightarrow>
      (\<exists>a g. BigInt amt = Some a \<and> BigInt (cwGasAmount cfg) = Some g
          \<and> sequence (walletState st') = sequence (walletState st) + 1
          \<and> balance (walletState st') = balance (walletState st) - a
          \<and> nativeBalance (walletState st') =
              nativeBalance (walletState st) - g - (if cwIsNativeToken cfg then a else 0)))
   \<and> (sendTokensRun cfg client reqs st = (ress, st'') \<and> (\<forall>x \<in> set ress. \<not> isl x) \<longrightarrow>
        sequence (walletState st'') = sequence (walletState st) + int (length reqs))"
  using sendTokens_ok[of cfg client r amt st res st'] sendTokensRun_sequence[of cfg client reqs st ress st'']
  by blast

lemma sendTokens_example:
  "fst (sendTokens exampleConfig acceptAll ''cosmos1alice'' ''500'' (freshState readyWallet))
     = Inr (TransactionResult ''TX0'' 100 200)"
  by (simp add: sendTokens_def example_defs gasFee_def BigInt_eval natToString.simps Let_def)

lemma sendTokensRun_example:
  "map isl (fst (sendTokensRun exampleConfig acceptAll
       [(''cosmos1alice'', ''500''), (''cosmos1bob'', ''20'')] (freshState readyWallet))) = [False, False]"
  by (simp add: sendTokens_def example_defs gasFee_def BigInt_eval natToString.simps Let_def
        split: prod.splits)

theorem sendTokens_accounting_witness:
  "\<exists>res st' ress st''.
     sendTokens exampleConfig acceptAll ''cosmos1alice'' ''500'' (freshState readyWallet) = (Inr res, st')
     \<and> sequence (walletState st') = 8 \<and> balance (walletState st') = 999500
     \<and> nativeBalance (walletState st') = 999300
     \<and> sendTokensRun exampleConfig acceptAll [(''cosmos1alice'', ''500''), (''cosmos1bob'', ''20'')]
          (freshState readyWallet) = (ress, st'')
     \<and> map isl ress = [False, False] \<and> sequence (walletState st'') = 9"
proof -
  let ?st = "freshState readyWallet"
  let ?reqs = "[(''cosmos1alice'', ''500''), (''cosmos1bob'', ''20'')]"
  obtain st' where one:
    "sendTokens exampleConfig acceptAll ''cosmos1alice'' ''500'' ?st
       = (Inr (TransactionResult ''TX0'' 100 200), st')"
    using sendTokens_example
    by (cases "sendTokens exampleConfig acceptAll ''cosmos1alice'' ''500'' ?st") auto
  obtain ress st'' where run: "sendTokensRun exampleConfig acceptAll ?reqs ?st = (ress, st'')"
    by (cases "sendTokensRun exampleConfig acceptAll ?reqs ?st")
  from run sendTokensRun_example have isl: "map isl ress = [False, False]"
    by simp
  then have ok: "\<forall>x \<in> set ress. \<not> isl x"
    by (cases ress; cases "tl ress") auto
  have b: "BigInt ''500'' = Some 500" "BigInt (cwGasAmount exampleConfig) = Some 200"
    by (simp_all add: BigInt_eval exampleConfig_def)
  have w: "sequence (walletState ?st) = 7" "balance (walletState ?st) = 1000000"
     "nativeBalance (walletState ?st) = 1000000" "cwIsNativeToken exampleConfig"
    by (simp_all add: example_defs)
  from sendTokens_accounting[of exampleConfig acceptAll "''cosmos1alice''" "''500''" ?st
        "TransactionResult ''TX0'' 100 200" st' ?reqs ress st'']
     one run ok isl b w
  show ?thesis by auto
qed

section \<open>Properties of claim creation\<close>

lemma createSessionClaim_NOT_CLAIMABLE:
  "status sd \<noteq> CLAIMABLE \<Longrightarrow>
     createSessionClaim cfg hooks dbError now sd ui st
       = (Inl (FaucetError ''NOT_CLAIMABLE'' ''Cannot claim session: not claimable''), st)"
  by (simp add: createSessionClaim_def)

lemma createSessionClaim_AMOUNT_TOO_LOW:
  "status sd = CLAIMABLE \<Longrightarrow> BigInt (dropAmount sd) = Some d \<Longrightarrow> BigInt (cwMinAmount cfg) = Some lo
     \<Longrightarrow> d < lo \<Longrightarrow>
     createSessionClaim cfg hooks dbError now sd ui st
       = (Inl (FaucetError ''AMOUNT_TOO_LOW'' ''Drop amount lower than minimum''), st)"
  by (simp add: createSessionClaim_def)

lemma createSessionClaim_AMOUNT_TOO_HIGH:
  "status sd = CLAIMABLE \<Longrightarrow> BigInt (dropAmount sd) = Some d \<Longrightarrow> BigInt (cwMinAmount cfg) = Some lo
     \<Longrightarrow> lo \<le> d \<Longrightarrow> BigInt (cwMaxAmount cfg) = Some hi \<Longrightarrow> hi < d \<Longrightarrow>
     createSessionClaim cfg hooks dbError now sd ui st
       = (Inl (FaucetError ''AMOUNT_TOO_HIGH'' ''Drop amount higher than maximum''), st)"
  by (simp add: createSessionClaim_def)

lemma createSessionClaim_INVALID_ADDRESS:
  "status sd = CLAIMABLE \<Longrightarrow> BigInt (dropAmount sd) = Some d \<Longrightarrow> BigInt (cwMinAmount cfg) = Some lo
     \<Longrightarrow> lo \<le> d \<Longrightarrow> BigInt (cwMaxAmount cfg) = Some hi \<Longrightarrow> d \<le> hi
     \<Longrightarrow> \<not> startsWith (targetAddr sd) (cwAddressPrefix cfg) \<Longrightarrow>
     createSessionClaim cfg hooks dbError now sd ui st
       = (Inl (FaucetError ''INVALID_ADDRESS'' ''Invalid address format''), st)"
  by (simp add: createSessionClaim_def)

lemma createSessionClaim_RACE_CLAIMING:
  "status sd = CLAIMABLE \<Longrightarrow> BigInt (dropAmount sd) = Some d \<Longrightarrow> BigInt (cwMinAmount cfg) = Some lo
     \<Longrightarrow> lo \<le> d \<Longrightarrow> BigInt (cwMaxAmount cfg) = Some hi \<Longrightarrow> d \<le> hi
     \<Longrightarrow> startsWith (targetAddr sd) (cwAddressPrefix cfg)
     \<Longrightarrow> fmlookup (claimTxDict st) (sessionId sd) = Some r \<Longrightarrow>
     createSessionClaim cfg hooks dbError now sd ui st
       = (Inl (FaucetError ''RACE_CLAIMING'' ''Cannot claim session: already claiming (race condition)''), st)"
  by (simp add: createSessionClaim_def)

lemma createSessionClaim_passed:
  "claimPreconditions cfg sd st \<Longrightarrow>
     createSessionClaim cfg hooks dbError now sd ui st =
       (case hooks (newClaimInfo now sd st) ui of
          HookFaucetError code msg \<Rightarrow> (Inl (FaucetError code msg), st\<lparr>lastClaimTxIdx := lastClaimTxIdx st + 1\<rparr>)
        | HookException ex \<Rightarrow> (Inl (FaucetError ''INTERNAL_ERROR'' (''claimSession failed: '' @ ex)),
                                st\<lparr>lastClaimTxIdx := lastClaimTxIdx st + 1\<rparr>)
        | HookOk ci \<Rightarrow>
            (case dbError of
               Some err \<Rightarrow> (Inl (Error err), st\<lparr>lastClaimTxIdx := lastClaimTxIdx st + 1\<rparr>)
             | None \<Rightarrow>
                 (Inr (nextRef st, sd\<lparr>status := CLAIMING, dropAmount := amount ci, sessionClaim := Some (claim ci)\<rparr>),
                  st\<lparr>lastClaimTxIdx := lastClaimTxIdx st + 1,
                     heap := (heap st)(nextRef st := ci), nextRef := Suc (nextRef st),
                     claimTxQueue := claimTxQueue st @ [nextRef st],
                     claimTxDict := fmupd (session ci) (nextRef st) (claimTxDict st)\<rparr>)))"
  by (auto simp: claimPreconditions_def createSessionClaim_def Let_def
      split: option.splits HookResult.splits)

lemma createSessionClaim_error_frame:
  "createSessionClaim cfg hooks dbError now sd ui st = (Inl e, st') \<Longrightarrow>
     claimTxQueue st' = claimTxQueue st \<and> claimTxDict st' = claimTxDict st
     \<and> pendingTxQueue st' = pendingTxQueue st \<and> historyTxDict st' = historyTxDict st
     \<and> heap st' = heap st
     \<and> (lastClaimTxIdx st' = lastClaimTxIdx st \<or> lastClaimTxIdx st' = lastClaimTxIdx st + 1)"
  by (auto simp: createSessionClaim_def Let_def split: if_splits option.splits HookResult.splits)


text \<open>
  Claim C4.  \<^verbatim>\<open>createSessionClaim\<close> checks its preconditions in the order status, lower
  bound, upper bound, address prefix, race, and throws for the first one that fails; the
  state is left as it was.  The amounts are the integers that \<^verbatim>\<open>BigInt\<close> reads from the
  decimal strings of the session and the configuration, of any size.
\<close>

theorem createSessionClaim_precondition_order:
  "(status sd \<noteq> CLAIMABLE \<longrightarrow>
      createSessionClaim cfg hooks dbError now sd ui st
        = (Inl (FaucetError ''NOT_CLAIMABLE'' ''Cannot claim session: not claimable''), st))
   \<and> (status sd = CLAIMABLE \<and> BigInt (dropAmount sd) = Some d \<and> BigInt (cwMinAmount cfg) = Some lo
        \<and> d < lo \<longrightarrow>
      createSessionClaim cfg hooks dbError now sd ui st
        = (Inl (FaucetError ''AMOUNT_TOO_LOW'' ''Drop amount lower than minimum''), st))
   \<and> (status sd = CLAIMABLE \<and> BigInt (dropAmount sd) = Some d \<and> BigInt (cwMinAmount cfg) = Some lo
        \<and> lo \<le> d \<and> BigInt (cwMaxAmount cfg) = Some hi \<and> hi < d \<longrightarrow>
      createSessionClaim cfg hooks dbError now sd ui st
        = (Inl (FaucetError ''AMOUNT_TOO_HIGH'' ''Drop amount higher than maximum''), st))
   \<and> (status sd = CLAIMABLE \<and> BigInt (dropAmount sd) = Some d \<and> BigInt (cwMinAmount cfg) = Some lo
        \<and> lo \<le> d \<and> BigInt (cwMaxAmount cfg) = Some hi \<and> d \<le> hi
        \<and> \<not> startsWith (targetAddr sd) (cwAddressPrefix cfg) \<longrightarrow>
      createSessionClaim cfg hooks dbError now sd ui st
        = (Inl (FaucetError ''INVALID_ADDRESS'' ''Invalid address format''), st))
   \<and> (status sd = CLAIMABLE \<and> BigInt (dropAmount sd) = Some d \<and> BigInt (cwMinAmount cfg) = Some lo
        \<and> lo \<le> d \<and> BigInt (cwMaxAmount cfg) = Some hi \<and> d \<le> hi
        \<and> startsWith (targetAddr sd) (cwAddressPrefix cfg)
        \<and> fmlookup (claimTxDict st) (sessionId sd) = Some r \<longrightarrow>
      createSessionClaim cfg hooks dbError now sd ui st
        = (Inl (FaucetError ''RACE_CLAIMING''
                  ''Cannot claim session: already claiming (race condition)''), st))"
  using createSessionClaim_NOT_CLAIMABLE[of sd cfg hooks dbError now ui st]
    createSessionClaim_AMOUNT_TOO_LOW[of sd d cfg lo hooks dbError now ui st]
    createSessionClaim_AMOUNT_TOO_HIGH[of sd d cfg lo hi hooks dbError now ui st]
    createSessionClaim_INVALID_ADDRESS[of sd d cfg lo hi hooks dbError now ui st]
    createSessionClaim_RACE_CLAIMING[of sd d cfg lo hi st r hooks dbError now ui]
  by blast

lemma example_amounts:
  "BigInt (cwMinAmount exampleConfig) = Some 10" "BigInt (cwMaxAmount exampleConfig) = Some 5000"
  "BigInt ''500'' = Some 500" "BigInt ''5'' = Some 5"
  "BigInt ''100000000000000000000000'' = Some 100000000000000000000000"
  by (simp_all add: BigInt_eval exampleConfig_def)

theorem createSessionClaim_precondition_order_witness:
  "createSessionClaim exampleConfig acceptHooks None 1700000000
       (exampleSession\<lparr>status := RUNNING, dropAmount := ''5'', targetAddr := ''osmo1bob''\<rparr>) ()
       (freshState readyWallet)
     = (Inl (FaucetError ''NOT_CLAIMABLE'' ''Cannot claim session: not claimable''), freshState readyWallet)
   \<and> createSessionClaim exampleConfig acceptHooks None 1700000000
       (exampleSession\<lparr>dropAmount := ''5'', targetAddr := ''osmo1bob''\<rparr>) () (freshState readyWallet)
     = (Inl (FaucetError ''AMOUNT_TOO_LOW'' ''Drop amount lower than minimum''), freshState readyWallet)
   \<and> createSessionClaim exampleConfig acceptHooks None 1700000000
       (exampleSession\<lparr>dropAmount := ''100000000000000000000000'', targetAddr := ''osmo1bob''\<rparr>) ()
       (freshState readyWallet)
     = (Inl (FaucetError ''AMOUNT_TOO_HIGH'' ''Drop amount higher than maximum''), freshState readyWallet)
   \<and> createSessionClaim exampleConfig acceptHooks None 1700000000
       (exampleSession\<lparr>targetAddr := ''osmo1bob''\<rparr>) ()
       ((freshState readyWallet)\<lparr>claimTxDict := fmupd ''S1'' 0 fmempty\<rparr>)
     = (Inl (FaucetError ''INVALID_ADDRESS'' ''Invalid address format''),
        (freshState readyWallet)\<lparr>claimTxDict := fmupd ''S1'' 0 fmempty\<rparr>)
   \<and> createSessionClaim exampleConfig acceptHooks None 1700000000 exampleSession ()
       ((freshState readyWallet)\<lparr>claimTxDict := fmupd ''S1'' 0 fmempty\<rparr>)
     = (Inl (FaucetError ''RACE_CLAIMING'' ''Cannot claim session: already claiming (race condition)''),
        (freshState readyWallet)\<lparr>claimTxDict := fmupd ''S1'' 0 fmempty\<rparr>)"
proof -
  let ?st = "freshState readyWallet"
  let ?busy = "(freshState readyWallet)\<lparr>claimTxDict := fmupd ''S1'' 0 fmempty\<rparr>"
  note inst = createSessionClaim_precondition_order[where cfg = exampleConfig and hooks = acceptHooks
      and dbError = None and now = 1700000000 and ui = "()" and lo = 10 and hi = 5000]
  have 1: "createSessionClaim exampleConfig acceptHooks None 1700000000
       (exampleSession\<lparr>status := RUNNING, dropAmount := ''5'', targetAddr := ''osmo1bob''\<rparr>) () ?st
     = (Inl (FaucetError ''NOT_CLAIMABLE'' ''Cannot claim session: not claimable''), ?st)"
    using inst[where sd = "exampleSession\<lparr>status := RUNNING, dropAmount := ''5'', targetAddr := ''osmo1bob''\<rparr>"
        and st = ?st]
    by (simp add: exampleSession_def)
  have 2: "createSessionClaim exampleConfig acceptHooks None 1700000000
       (exampleSession\<lparr>dropAmount := ''5'', targetAddr := ''osmo1bob''\<rparr>) () ?st
     = (Inl (FaucetError ''AMOUNT_TOO_LOW'' ''Drop amount lower than minimum''), ?st)"
    using inst[where sd = "exampleSession\<lparr>dropAmount := ''5'', targetAddr := ''osmo1bob''\<rparr>"
        and st = ?st and d = 5] example_amounts
    by (simp add: exampleSession_def)
  have 3: "createSessionClaim exampleConfig acceptHooks None 1700000000
       (exampleSession\<lparr>dropAmount := ''100000000000000000000000'', targetAddr := ''osmo1bob''\<rparr>) () ?st
     = (Inl (FaucetError ''AMOUNT_TOO_HIGH'' ''Drop amount higher than maximum''), ?st)"
    using inst[where sd = "exampleSession\<lparr>dropAmount := ''100000000000000000000000'', targetAddr := ''osmo1bob''\<rparr>"
        and st = ?st and d = 100000000000000000000000] example_amounts
    by (simp add: exampleSession_def)
  have 4: "createSessionClaim exampleConfig acceptHooks None 1700000000
       (exampleSession\<lparr>targetAddr := ''osmo1bob''\<rparr>) () ?busy
     = (Inl (FaucetError ''INVALID_ADDRESS'' ''Invalid address format''), ?busy)"
    using inst[where sd = "exampleSession\<lparr>targetAddr := ''osmo1bob''\<rparr>" and st = ?busy and d = 500]
      example_amounts
    by (simp add: exampleSession_def startsWith_def exampleConfig_def)
  have 5: "createSessionClaim exampleConfig acceptHooks None 1700000000 exampleSession () ?busy
     = (Inl (FaucetError ''RACE_CLAIMING'' ''Cannot claim session: already claiming (race condition)''), ?busy)"
    using inst[where sd = exampleSession and st = ?busy and d = 500 and r = 0] example_amounts
    by (simp add: exampleSession_def startsWith_def exampleConfig_def)
  from 1 2 3 4 5 show ?thesis by blast
qed

text \<open>
  Claim C10.  Whenever \<^verbatim>\<open>createSessionClaim\<close> throws, the queue, the session dictionary and
  the pending map are what they were.  When the preconditions hold and the hook chain does
  not return normally, the call throws with the claim index counter already advanced by
  one, so that index is never handed out.
\<close>

theorem createSessionClaim_failure_leaves_collections:
  "(createSessionClaim cfg hooks dbError now sd ui st = (Inl e, st') \<longrightarrow>
      claimTxQueue st' = claimTxQueue st \<and> claimTxDict st' = claimTxDict st
      \<and> pendingTxQueue st' = pendingTxQueue st)
   \<and> (claimPreconditions cfg sd st \<and> (\<forall>ci. hooks (newClaimInfo now sd st) ui \<noteq> HookOk ci) \<longrightarrow>
        (\<exists>e'. createSessionClaim cfg hooks dbError now sd ui st
                = (Inl e', st\<lparr>lastClaimTxIdx := lastClaimTxIdx st + 1\<rparr>)))"
proof (rule conjI)
  show "createSessionClaim cfg hooks dbError now sd ui st = (Inl e, st') \<longrightarrow>
      claimTxQueue st' = claimTxQueue st \<and> claimTxDict st' = claimTxDict st
      \<and> pendingTxQueue st' = pendingTxQueue st"
    using createSessionClaim_error_frame[of cfg hooks dbError now sd ui st e st'] by blast
next
  show "claimPreconditions cfg sd st \<and> (\<forall>ci. hooks (newClaimInfo now sd st) ui \<noteq> HookOk ci) \<longrightarrow>
        (\<exists>e'. createSessionClaim cfg hooks dbError now sd ui st
                = (Inl e', st\<lparr>lastClaimTxIdx := lastClaimTxIdx st + 1\<rparr>))"
    by (cases "hooks (newClaimInfo now sd st) ui") (simp_all add: createSessionClaim_passed)
qed

lemma example_preconditions: "claimPreconditions exampleConfig exampleSession (freshState readyWallet)"
proof -
  have "startsWith (targetAddr exampleSession) (cwAddressPrefix exampleConfig)"
    by (simp add: startsWith_def exampleSession_def exampleConfig_def)
  moreover have "dropAmount exampleSession = ''500''" "status exampleSession = CLAIMABLE"
    "fmlookup (claimTxDict (freshState readyWallet)) (sessionId exampleSession) = None"
    by (simp_all add: exampleSession_def freshState_def)
  ultimately show ?thesis
    by (simp add: claimPreconditions_def example_amounts)
qed

theorem createSessionClaim_failure_leaves_collections_witness:
  "\<exists>e st'. createSessionClaim exampleConfig rejectHooks None 1700000000 exampleSession ()
              (freshState readyWallet) = (Inl e, st')
     \<and> claimTxQueue st' = [] \<and> claimTxDict st' = fmempty \<and> pendingTxQueue st' = fmempty
     \<and> lastClaimTxIdx st' = 2"
proof -
  let ?st = "freshState readyWallet"
  have no: "\<forall>ci. rejectHooks (newClaimInfo 1700000000 exampleSession ?st) () \<noteq> HookOk ci"
    by (simp add: rejectHooks_def)
  from createSessionClaim_failure_leaves_collections[of exampleConfig rejectHooks None 1700000000
      exampleSession "()" ?st _ "?st\<lparr>lastClaimTxIdx := lastClaimTxIdx ?st + 1\<rparr>"]
    example_preconditions no
  obtain e' where r: "createSessionClaim exampleConfig rejectHooks None 1700000000 exampleSession () ?st
       = (Inl e', ?st\<lparr>lastClaimTxIdx := lastClaimTxIdx ?st + 1\<rparr>)"
    by blast
  from createSessionClaim_failure_leaves_collections[of exampleConfig rejectHooks None 1700000000
      exampleSession "()" ?st e' "?st\<lparr>lastClaimTxIdx := lastClaimTxIdx ?st + 1\<rparr>"] r
  show ?thesis by (simp add: freshState_def)
qed

section \<open>Properties of the confirmation watcher\<close>

lemmas confirm_defs = confirmationFailed_def keepHistory_def updateClaimStatus_def updClaim_def
  dropSession_def dropPending_def emitLog_def

lemma confirmationFailed_lastConfirmed [simp]:
  "lastConfirmedClaimTxIdx (confirmationFailed e r st) = lastConfirmedClaimTxIdx st"
  by (simp add: confirm_defs Let_def split: option.splits)

lemma confirmationFailed_claimIdx [simp]:
  "claimIdx (claim (heap (confirmationFailed e r st) r')) = claimIdx (claim (heap st r'))"
  by (simp add: confirm_defs Let_def split: option.splits)

lemma txConfirmation_lastConfirmed:
  "lastConfirmedClaimTxIdx (txConfirmation cfg r tx st) =
     (case tx of
        TxFound code height \<Rightarrow> if code = 0 then claimIdx (claim (heap st r)) else lastConfirmedClaimTxIdx st
      | _ \<Rightarrow> lastConfirmedClaimTxIdx st)"
  by (simp add: txConfirmation_def Let_def keepHistory_def updateClaimStatus_def updClaim_def
      dropSession_def dropPending_def split: GetTxResult.splits option.splits)

lemma txConfirmation_claimIdx [simp]:
  "claimIdx (claim (heap (txConfirmation cfg r tx st) r')) = claimIdx (claim (heap st r'))"
  by (simp add: txConfirmation_def Let_def keepHistory_def updateClaimStatus_def updClaim_def
      dropSession_def dropPending_def split: GetTxResult.splits option.splits)

lemma txConfirmations_claimIdx [simp]:
  "claimIdx (claim (heap (txConfirmations cfg es st) r')) = claimIdx (claim (heap st r'))"
  by (induction es arbitrary: st) simp_all

lemma txConfirmations_append:
  "txConfirmations cfg (xs @ ys) st = txConfirmations cfg ys (txConfirmations cfg xs st)"
  by (induction xs arbitrary: st) simp_all

lemma confirmedIdxs_step [simp]:
  "confirmedIdxs (txConfirmation cfg r tx st) es = confirmedIdxs st es"
  by (simp add: confirmedIdxs_def)

lemma txConfirmations_last:
  "lastConfirmedClaimTxIdx (txConfirmations cfg es st) = last (lastConfirmedClaimTxIdx st # confirmedIdxs st es)"
proof (induction es arbitrary: st)
  case Nil
  then show ?case by (simp add: confirmedIdxs_def)
next
  case (Cons e es)
  show ?case
    by (cases "snd e")
       (auto simp: Cons.IH txConfirmation_lastConfirmed confirmedIdxs_def)
qed

lemma sorted_last_ge: "sorted (x # xs) \<Longrightarrow> x \<le> last (x # xs)"
  by (induction xs arbitrary: x) auto

lemma txConfirmations_monotone:
  assumes "sorted (lastConfirmedClaimTxIdx st # confirmedIdxs st (xs @ ys))"
  shows "lastConfirmedClaimTxIdx (txConfirmations cfg xs st)
           \<le> lastConfirmedClaimTxIdx (txConfirmations cfg (xs @ ys) st)"
proof -
  let ?a = "lastConfirmedClaimTxIdx st"
  have split: "confirmedIdxs st (xs @ ys) = confirmedIdxs st xs @ confirmedIdxs st ys"
    by (simp add: confirmedIdxs_def)
  let ?m = "last (?a # confirmedIdxs st xs)"
  have "?a # confirmedIdxs st xs @ confirmedIdxs st ys
        = butlast (?a # confirmedIdxs st xs) @ (?m # confirmedIdxs st ys)"
    by (metis append_Cons append_butlast_last_id append_eq_append_conv2 list.distinct(1) self_append_conv)
  with assms split have "sorted (?m # confirmedIdxs st ys)"
    by (metis sorted_append)
  then have "?m \<le> last (?m # confirmedIdxs st ys)" by (rule sorted_last_ge)
  moreover have "last (?m # confirmedIdxs st ys) = last (?a # confirmedIdxs st (xs @ ys))"
    by (simp add: split)
  ultimately show ?thesis by (simp add: txConfirmations_last)
qed

section \<open>The example run\<close>

lemma processQueueLoop_stop:
  "processQueueStep cfg client st = None \<Longrightarrow> processQueueLoop cfg client st = (None, st)"
  by (simp add: processQueueLoop.simps)

lemma processQueueLoop_throw:
  "processQueueStep cfg client st = Some (Some ex, st') \<Longrightarrow> processQueueLoop cfg client st = (Some ex, st')"
  by (simp add: processQueueLoop.simps)

lemma processQueueLoop_next:
  "processQueueStep cfg client st = Some (None, st') \<Longrightarrow>
     processQueueLoop cfg client st = processQueueLoop cfg client st'"
  by (simp add: processQueueLoop.simps)

lemma secondSession_preconditions:
  "fmlookup (claimTxDict st) ''S2'' = None \<Longrightarrow> claimPreconditions exampleConfig secondSession st"
proof -
  assume a: "fmlookup (claimTxDict st) ''S2'' = None"
  have "startsWith (targetAddr secondSession) (cwAddressPrefix exampleConfig)"
    by (simp add: startsWith_def secondSession_def exampleConfig_def)
  moreover have "dropAmount secondSession = ''20''" "status secondSession = CLAIMABLE"
    "sessionId secondSession = ''S2''"
    by (simp_all add: secondSession_def)
  moreover have "BigInt ''20'' = Some 20" by (simp add: BigInt_eval)
  ultimately show ?thesis using a
    by (simp add: claimPreconditions_def example_amounts)
qed

lemma twoQueued_eq:
  "twoQueued = (freshState readyWallet)
     \<lparr>heap := (\<lambda>_. emptyClaim)(0 := claim1, 1 := claim2), nextRef := 2,
      claimTxDict := fmupd ''S2'' 1 (fmupd ''S1'' 0 fmempty), claimTxQueue := [0, 1],
      lastClaimTxIdx := 3\<rparr>"
  unfolding twoQueued_def
  apply (subst createSessionClaim_passed[OF example_preconditions])
  apply (simp add: acceptHooks_def)
  apply (subst createSessionClaim_passed[OF secondSession_preconditions])
   apply (simp add: freshState_def newClaimInfo_def exampleSession_def)
  apply (simp add: acceptHooks_def freshState_def newClaimInfo_def exampleSession_def secondSession_def
      claim1_def claim2_def)
  done


lemmas tick_defs = processQueueStep_def processQueueTx_def sendTokens_def gasFee_def failClaim_def
  awaitTxConfirmation_def updateClaimStatus_def updClaim_def emitLog_def truthy_def
  notificationChanged_def broadcastClaimNotification_def

lemma twoPending_fields:
  "claimTxQueue twoPending = []
   \<and> pendingTxQueue twoPending = fmupd ''TX1'' 1 (fmupd ''TX0'' 0 fmempty)
   \<and> lastProcessedClaimTxIdx twoPending = 2
   \<and> lastConfirmedClaimTxIdx twoPending = 0
   \<and> broadcasts twoPending = [\<lparr>processedIdx = 2, confirmedIdx = 0\<rparr>]
   \<and> watchers twoPending = [0, 1]
   \<and> claimIdx (claim (heap twoPending 0)) = 1
   \<and> claimIdx (claim (heap twoPending (Suc 0))) = 2
   \<and> txHash (claim (heap twoPending 0)) = Some ''TX0''
   \<and> txHash (claim (heap twoPending (Suc 0))) = Some ''TX1''
   \<and> walletState twoPending = \<lparr>ready = True, sequence = 9, balance = 999480, nativeBalance = 999080\<rparr>"
  unfolding twoPending_def processQueue_def twoQueued_eq
  by (simp add: processQueueLoop.simps tick_defs example_defs claim1_def claim2_def BigInt_eval
      natToString.simps Let_def fcard_finsert_if fcard_fempty)

text \<open>
  Claim C2 says that \<^verbatim>\<open>lastConfirmedClaimTxIdx\<close> never decreases, whatever the order of the
  confirmations.  In \<open>twoPending\<close> the claims 1 and 2 are pending; when the watcher of
  claim 2 completes first and the watcher of claim 1 after it, the watermark goes from 2
  back to 1.
\<close>

theorem lastConfirmed_out_of_order_counterexample:
  "lastConfirmedClaimTxIdx (txConfirmations exampleConfig [(1, TxFound 0 50)] twoPending) = 2
   \<and> lastConfirmedClaimTxIdx
        (txConfirmations exampleConfig [(1, TxFound 0 50), (0, TxFound 0 51)] twoPending) = 1"
  by (simp add: txConfirmation_lastConfirmed twoPending_fields)

text \<open>
  Claim C2, amended.  A completion that finds the transaction with code 0 sets
  \<^verbatim>\<open>lastConfirmedClaimTxIdx\<close> to the claim index of its claim, without taking a maximum;
  every other completion leaves it alone.  So along a sequence of completions whose
  confirmed claim indices, starting from the current watermark, are in non-decreasing
  order, the watermark never decreases.
\<close>

theorem lastConfirmed_follows_confirmations:
  "lastConfirmedClaimTxIdx (txConfirmation cfg r tx st) =
     (case tx of
        TxFound code height \<Rightarrow> if code = 0 then claimIdx (claim (heap st r)) else lastConfirmedClaimTxIdx st
      | _ \<Rightarrow> lastConfirmedClaimTxIdx st)
   \<and> (sorted (lastConfirmedClaimTxIdx st # confirmedIdxs st (xs @ ys)) \<longrightarrow>
        lastConfirmedClaimTxIdx (txConfirmations cfg xs st)
          \<le> lastConfirmedClaimTxIdx (txConfirmations cfg (xs @ ys) st))"
  using txConfirmation_lastConfirmed[of cfg r tx st] txConfirmations_monotone[of st xs ys cfg]
  by blast

theorem lastConfirmed_follows_confirmations_witness:
  "lastConfirmedClaimTxIdx (txConfirmation exampleConfig 0 (TxFound 0 50) twoPending) = 1
   \<and> lastConfirmedClaimTxIdx (txConfirmations exampleConfig [(0, TxFound 0 50)] twoPending)
       \<le> lastConfirmedClaimTxIdx
            (txConfirmations exampleConfig ([(0, TxFound 0 50)] @ [(1, TxFound 0 51)]) twoPending)"
proof -
  have "sorted (lastConfirmedClaimTxIdx twoPending
                 # confirmedIdxs twoPending ([(0, TxFound 0 50)] @ [(1, TxFound 0 51)]))"
    by (simp add: confirmedIdxs_def twoPending_fields)
  with lastConfirmed_follows_confirmations[of exampleConfig 0 "TxFound 0 50" twoPending
      "[(0, TxFound 0 50)]" "[(1, TxFound 0 51)]"]
  show ?thesis by (simp add: twoPending_fields)
qed

section \<open>Properties of the queue tick\<close>

lemma tickFrame_refl [simp]: "tickFrame st st"
  by (simp add: tickFrame_def)

lemma tickFrame_trans: "tickFrame a b \<Longrightarrow> tickFrame b c \<Longrightarrow> tickFrame a c"
  by (simp add: tickFrame_def)

lemma sendTokens_frame:
  "sendTokens cfg c r a s = (res, s') \<Longrightarrow>
     tickFrame s s' \<and> pendingTxQueue s' = pendingTxQueue s \<and> heap s' = heap s
     \<and> claimTxDict s' = claimTxDict s \<and> watchers s' = watchers s"
  by (auto simp: sendTokens_def tickFrame_def Let_def split: if_splits ChainResult.splits option.splits)

lemma confirmationFailed_frame:
  "tickFrame s (confirmationFailed e r s)"
  by (simp add: tickFrame_def confirm_defs Let_def split: option.splits)

lemma confirmationFailed_pending:
  "\<not> truthy (txHash (claim (heap s r))) \<Longrightarrow> pendingTxQueue (confirmationFailed e r s) = pendingTxQueue s"
  by (simp add: confirm_defs truthy_def Let_def split: option.splits)

lemma failClaim_frame:
  "tickFrame s (failClaim m r s) \<and> pendingTxQueue (failClaim m r s) = pendingTxQueue s"
  by (simp add: tickFrame_def failClaim_def updateClaimStatus_def updClaim_def)

lemma awaitTxConfirmation_frame:
  "tickFrame s (awaitTxConfirmation r s) \<and> pendingTxQueue (awaitTxConfirmation r s) = pendingTxQueue s"
  by (simp add: awaitTxConfirmation_def confirmationFailed_frame confirmationFailed_pending)
     (simp add: tickFrame_def)

lemma processQueueTx_frame:
  assumes "processQueueTx cfg client r s = (ex, s')"
  shows "tickFrame s s'
    \<and> (pendingTxQueue s' = pendingTxQueue s \<or> (\<exists>h. pendingTxQueue s' = fmupd h r (pendingTxQueue s)))
    \<and> (ex \<noteq> None \<longrightarrow> BigInt (cwMinGasAmount cfg) = None \<and> s' = s)"
proof (cases "ready (walletState s)")
  case False
  with assms show ?thesis by (auto simp: processQueueTx_def failClaim_frame)
next
  case True
  show ?thesis
  proof (cases "BigInt (cwMinGasAmount cfg)")
    case None
    with True assms show ?thesis by (auto simp: processQueueTx_def)
  next
    case (Some minGas)
    show ?thesis
    proof (cases "nativeBalance (walletState s) \<le> minGas")
      case True
      with \<open>ready (walletState s)\<close> Some assms show ?thesis
        by (auto simp: processQueueTx_def failClaim_frame)
    next
      case False
      let ?s1 = "updClaim r (\<lambda>c. c\<lparr>claimStatus := PROCESSING\<rparr>) s"
      have f1: "tickFrame s ?s1" "pendingTxQueue ?s1 = pendingTxQueue s"
        by (simp_all add: tickFrame_def updClaim_def)
      obtain res s2 where send: "sendTokens cfg client (target (heap ?s1 r)) (amount (heap ?s1 r)) ?s1 = (res, s2)"
        by (cases "sendTokens cfg client (target (heap ?s1 r)) (amount (heap ?s1 r)) ?s1")
      from sendTokens_frame[OF send] f1
      have f2: "tickFrame s s2" "pendingTxQueue s2 = pendingTxQueue s"
        by (auto intro: tickFrame_trans)
      show ?thesis
      proof (cases res)
        case (Inl e)
        with assms \<open>ready (walletState s)\<close> Some False send
        have "ex = None" "s' = failClaim (''Processing Exception: '' @ toString e) r s2"
          by (simp_all add: processQueueTx_def Let_def)
        with f2 failClaim_frame[of s2] show ?thesis
          by (auto intro: tickFrame_trans)
      next
        case (Inr tr)
        let ?s3 = "updClaim r (\<lambda>c. c\<lparr>txHash := Some (resTxHash tr)\<rparr>) s2"
        let ?s4 = "?s3\<lparr>pendingTxQueue := fmupd (resTxHash tr) r (pendingTxQueue ?s3)\<rparr>"
        let ?s5 = "emitLog INFO (SubmittedClaimTx (session (heap ?s4 r)) (amount (heap ?s4 r))
                                       (target (heap ?s4 r)) (resTxHash tr)) ?s4"
        let ?s6 = "updClaim r (\<lambda>c. c\<lparr>claimStatus := PENDING\<rparr>) ?s5"
        let ?s7 = "updateClaimStatus r ?s6"
        from assms \<open>ready (walletState s)\<close> Some False send Inr
        have r: "ex = None" "s' = awaitTxConfirmation r ?s7"
          by (simp_all add: processQueueTx_def Let_def)
        have f7: "tickFrame s2 ?s7" "pendingTxQueue ?s7 = fmupd (resTxHash tr) r (pendingTxQueue s2)"
          by (simp_all add: tickFrame_def updClaim_def updateClaimStatus_def emitLog_def)
        with r f2 awaitTxConfirmation_frame[of ?s7 r] show ?thesis
          by (auto intro: tickFrame_trans)
      qed
    qed
  qed
qed

lemma loopFrame_refl [simp]: "loopFrame st st"
  by (simp add: loopFrame_def)

lemma loopFrame_trans: "loopFrame a b \<Longrightarrow> loopFrame b c \<Longrightarrow> loopFrame a c"
  by (simp add: loopFrame_def)

lemma pendingCount_fmupd:
  "pendingTxQueue s' = fmupd h r (pendingTxQueue s) \<Longrightarrow> pendingCount s' \<le> pendingCount s + 1"
  by (simp add: pendingCount_def fcard_finsert_if)

lemma processQueueStep_None:
  "\<not> gasGate cfg st \<Longrightarrow>
     processQueueStep cfg client st = None
     \<or> (\<exists>e. processQueueStep cfg client st = Some (Some e, st) \<and> BigInt (cwMinGasAmount cfg) = None)"
  by (auto simp: gasGate_def processQueueStep_def split: option.splits)

lemma processQueueStep_Some:
  assumes "processQueueStep cfg client st = Some (ex, st')"
  shows "pendingCount st < cwMaxPending cfg \<and> claimTxQueue st \<noteq> [] \<and> ready (walletState st)
     \<and> (if ex = None
         then gasGate cfg st
              \<and> claimTxQueue st' = tl (claimTxQueue st)
              \<and> lastProcessedClaimTxIdx st' = claimIdx (claim (heap st (hd (claimTxQueue st))))
              \<and> pendingCount st' \<le> pendingCount st + 1
              \<and> loopFrame st st'
         else BigInt (cwMinGasAmount cfg) = None \<and> st' = st)"
proof -
  from assms have pre: "pendingCount st < cwMaxPending cfg" "claimTxQueue st \<noteq> []" "ready (walletState st)"
    by (auto simp: processQueueStep_def pendingCount_def split: if_splits)
  show ?thesis
  proof (cases "BigInt (cwMinGasAmount cfg)")
    case None
    with assms pre show ?thesis
      by (auto simp: processQueueStep_def pendingCount_def split: if_splits)
  next
    case (Some minGas)
    let ?c = "hd (claimTxQueue st)"
    let ?s1 = "st\<lparr>claimTxQueue := tl (claimTxQueue st)\<rparr>"
    let ?s2 = "?s1\<lparr>lastProcessedClaimTxIdx := claimIdx (claim (heap ?s1 ?c))\<rparr>"
    from assms pre Some have gate: "minGas < nativeBalance (walletState st)"
      and tx: "processQueueTx cfg client ?c ?s2 = (ex, st')"
      by (auto simp: processQueueStep_def pendingCount_def Let_def split: if_splits)
    from processQueueTx_frame[OF tx] Some
    have f: "tickFrame ?s2 st'" "ex = None"
      "pendingTxQueue st' = pendingTxQueue ?s2 \<or> (\<exists>h. pendingTxQueue st' = fmupd h ?c (pendingTxQueue ?s2))"
      by auto
    from f(3) have "pendingCount st' \<le> pendingCount st + 1"
    proof
      assume "pendingTxQueue st' = pendingTxQueue ?s2"
      then show ?thesis by (simp add: pendingCount_def)
    next
      assume "\<exists>h. pendingTxQueue st' = fmupd h ?c (pendingTxQueue ?s2)"
      then obtain h where "pendingTxQueue st' = fmupd h ?c (pendingTxQueue st)" by auto
      then show ?thesis by (rule pendingCount_fmupd)
    qed
    moreover from f(1) have "claimTxQueue st' = tl (claimTxQueue st)"
      "lastProcessedClaimTxIdx st' = claimIdx (claim (heap st ?c))" "loopFrame st st'"
      by (simp_all add: tickFrame_def loopFrame_def)
    moreover from pre Some gate have "gasGate cfg st" by (simp add: gasGate_def)
    ultimately show ?thesis using pre f(2) by simp
  qed
qed

lemma processQueueLoop_props:
  "processQueueLoop cfg client st = (ex, st') \<Longrightarrow>
     loopFrame st st'
     \<and> pendingCount st' \<le> max (pendingCount st) (cwMaxPending cfg)
     \<and> (\<exists>k. claimTxQueue st' = drop k (claimTxQueue st))
     \<and> (ex \<noteq> None \<longrightarrow> BigInt (cwMinGasAmount cfg) = None)
     \<and> (\<not> gasGate cfg st \<longrightarrow> st' = st)"
proof (induction cfg client st arbitrary: ex st' rule: processQueueLoop.induct)
  case (1 cfg client st)
  show ?case
  proof (cases "processQueueStep cfg client st")
    case None
    with "1.prems" have "ex = None" "st' = st" by (simp_all add: processQueueLoop.simps)
    then show ?thesis by (auto intro: exI[of _ 0])
  next
    case (Some p)
    obtain e s1 where p: "p = (e, s1)" by (cases p)
    note step = processQueueStep_Some[OF Some[unfolded p]]
    show ?thesis
    proof (cases e)
      case (Some err)
      with \<open>processQueueStep cfg client st = Some p\<close> p "1.prems"
      have "ex = Some err" "st' = s1" by (simp_all add: processQueueLoop.simps)
      with step Some show ?thesis by (auto intro: exI[of _ 0])
    next
      case None
      with \<open>processQueueStep cfg client st = Some p\<close> p "1.prems"
      have loop: "processQueueLoop cfg client s1 = (ex, st')" by (simp add: processQueueLoop.simps)
      from "1.IH"[OF \<open>processQueueStep cfg client st = Some p\<close> p[symmetric] None loop]
      have ih: "loopFrame s1 st'" "pendingCount st' \<le> max (pendingCount s1) (cwMaxPending cfg)"
        "\<exists>k. claimTxQueue st' = drop k (claimTxQueue s1)" "ex \<noteq> None \<longrightarrow> BigInt (cwMinGasAmount cfg) = None"
        by auto
      from step None have s: "gasGate cfg st" "claimTxQueue s1 = tl (claimTxQueue st)"
        "pendingCount s1 \<le> pendingCount st + 1" "loopFrame st s1" "pendingCount st < cwMaxPending cfg"
        by auto
      from ih(3) s(2) obtain k where "claimTxQueue st' = drop (Suc k) (claimTxQueue st)"
        by (auto simp: drop_Suc)
      then have "\<exists>k. claimTxQueue st' = drop k (claimTxQueue st)" by blast
      moreover from ih(2) s(3,5) have "pendingCount st' \<le> max (pendingCount st) (cwMaxPending cfg)"
        by linarith
      ultimately show ?thesis using ih(1,4) s(1,4) by (auto intro: loopFrame_trans)
    qed
  qed
qed

lemma processQueue_cases:
  assumes "\<not> queueProcessing st"
  obtains (threw) e s1 where "processQueueLoop cfg client (st\<lparr>queueProcessing := True\<rparr>) = (Some e, s1)"
      "processQueue cfg client st
         = (emitLog ERROR (QueueProcessingException (toString e)) s1)\<lparr>queueProcessing := False\<rparr>"
  | (quiet) s1 where "processQueueLoop cfg client (st\<lparr>queueProcessing := True\<rparr>) = (None, s1)"
      "\<not> notificationChanged s1" "processQueue cfg client st = s1\<lparr>queueProcessing := False\<rparr>"
  | (notified) s1 where "processQueueLoop cfg client (st\<lparr>queueProcessing := True\<rparr>) = (None, s1)"
      "notificationChanged s1"
      "processQueue cfg client st
         = (broadcastClaimNotification
              \<lparr>processedIdx = lastProcessedClaimTxIdx s1, confirmedIdx = lastConfirmedClaimTxIdx s1\<rparr> s1)
           \<lparr>queueProcessing := False\<rparr>"
proof -
  obtain ex s1 where l: "processQueueLoop cfg client (st\<lparr>queueProcessing := True\<rparr>) = (ex, s1)"
    by (cases "processQueueLoop cfg client (st\<lparr>queueProcessing := True\<rparr>)")
  show thesis
  proof (cases ex)
    case None
    show thesis
    proof (cases "notificationChanged s1")
      case True
      with assms l None show thesis by (intro notified[of s1]) (simp_all add: processQueue_def)
    next
      case False
      with assms l None show thesis by (intro quiet[of s1]) (simp_all add: processQueue_def)
    qed
  next
    case (Some e)
    with assms l show thesis by (intro threw[of e s1]) (simp_all add: processQueue_def)
  qed
qed

lemma gasGate_flag [simp]: "gasGate cfg (st\<lparr>queueProcessing := b\<rparr>) = gasGate cfg st"
  by (simp add: gasGate_def split: option.split)

lemma pendingCount_simps [simp]:
  "pendingCount (st\<lparr>queueProcessing := b\<rparr>) = pendingCount st"
  "pendingCount (emitLog lvl m st) = pendingCount st"
  "pendingCount (broadcastClaimNotification d st) = pendingCount st"
  by (simp_all add: pendingCount_def emitLog_def broadcastClaimNotification_def)


lemma processQueue_gate_closed:
  assumes "\<not> gasGate cfg st"
  shows "claimTxQueue (processQueue cfg client st) = claimTxQueue st
     \<and> lastProcessedClaimTxIdx (processQueue cfg client st) = lastProcessedClaimTxIdx st
     \<and> lastConfirmedClaimTxIdx (processQueue cfg client st) = lastConfirmedClaimTxIdx st
     \<and> heap (processQueue cfg client st) = heap st
     \<and> pendingTxQueue (processQueue cfg client st) = pendingTxQueue st
     \<and> claimTxDict (processQueue cfg client st) = claimTxDict st
     \<and> chainCalls (processQueue cfg client st) = chainCalls st
     \<and> walletState (processQueue cfg client st) = walletState st"
proof (cases "queueProcessing st")
  case True
  then show ?thesis by (simp add: processQueue_def)
next
  case False
  from assms have g: "\<not> gasGate cfg (st\<lparr>queueProcessing := True\<rparr>)" by simp
  from False show ?thesis
  proof (cases rule: processQueue_cases[of st cfg client])
    case (threw e s1)
    with processQueueLoop_props[OF threw(1)] g show ?thesis by (simp add: emitLog_def)
  next
    case (quiet s1)
    with processQueueLoop_props[OF quiet(1)] g show ?thesis by simp
  next
    case (notified s1)
    with processQueueLoop_props[OF notified(1)] g show ?thesis
      by (simp add: broadcastClaimNotification_def)
  qed
qed

lemma processQueue_always_broadcasts:
  assumes "\<not> queueProcessing st" "lastNotificationData st = None" "BigInt (cwMinGasAmount cfg) \<noteq> None"
  shows "broadcasts (processQueue cfg client st)
           = broadcasts st @ [\<lparr>processedIdx = lastProcessedClaimTxIdx (processQueue cfg client st),
                                 confirmedIdx = lastConfirmedClaimTxIdx (processQueue cfg client st)\<rparr>]
     \<and> lastNotificationData (processQueue cfg client st) = None
     \<and> \<not> queueProcessing (processQueue cfg client st)"
  using assms(1)
proof (cases rule: processQueue_cases[of st cfg client])
  case (threw e s1)
  with processQueueLoop_props[OF threw(1)] assms(3) show ?thesis by simp
next
  case (quiet s1)
  with processQueueLoop_props[OF quiet(1)] assms(2) show ?thesis
    by (simp add: loopFrame_def notificationChanged_def)
next
  case (notified s1)
  with processQueueLoop_props[OF notified(1)] assms(2) show ?thesis
    by (simp add: loopFrame_def broadcastClaimNotification_def)
qed

lemma starved_eq:
  "starved = (freshState starvedWallet)
     \<lparr>heap := (\<lambda>_. emptyClaim)(0 := claim2\<lparr>claim := (claim claim2)\<lparr>claimIdx := 1\<rparr>\<rparr>), nextRef := 1,
      claimTxDict := fmupd ''S2'' 0 fmempty, claimTxQueue := [0], lastClaimTxIdx := 2\<rparr>"
  unfolding starved_def
  apply (subst createSessionClaim_passed[OF secondSession_preconditions])
   apply (simp add: freshState_def)
  apply (simp add: acceptHooks_def freshState_def newClaimInfo_def secondSession_def claim2_def)
  done

lemma starved_gate: "\<not> gasGate exampleConfig starved"
  by (simp add: gasGate_def starved_eq freshState_def starvedWallet_def exampleConfig_def BigInt_eval)

lemma twoQueued_gate: "gasGate exampleConfig twoQueued"
  by (simp add: gasGate_def twoQueued_eq example_defs BigInt_eval)


lemma gasGate_wallet: "walletState a = walletState b \<Longrightarrow> gasGate cfg a = gasGate cfg b"
  by (simp add: gasGate_def split: option.split)



lemma starved_tick:
  "broadcasts (processQueue exampleConfig acceptAll starved) = [\<lparr>processedIdx = 0, confirmedIdx = 0\<rparr>]
   \<and> lastNotificationData (processQueue exampleConfig acceptAll starved) = None
   \<and> \<not> queueProcessing (processQueue exampleConfig acceptAll starved)
   \<and> \<not> gasGate exampleConfig (processQueue exampleConfig acceptAll starved)
   \<and> claimTxQueue (processQueue exampleConfig acceptAll starved) = [0]
   \<and> lastProcessedClaimTxIdx (processQueue exampleConfig acceptAll starved) = 0
   \<and> lastConfirmedClaimTxIdx (processQueue exampleConfig acceptAll starved) = 0"
proof -
  have s: "\<not> queueProcessing starved" "lastNotificationData starved = None" "broadcasts starved = []"
    "lastProcessedClaimTxIdx starved = 0" "lastConfirmedClaimTxIdx starved = 0" "claimTxQueue starved = [0]"
    by (simp_all add: starved_eq freshState_def)
  have b: "BigInt (cwMinGasAmount exampleConfig) \<noteq> None"
    by (simp add: exampleConfig_def BigInt_eval)
  note closed = processQueue_gate_closed[OF starved_gate, of acceptAll]
  from closed have "\<not> gasGate exampleConfig (processQueue exampleConfig acceptAll starved)"
    using gasGate_wallet[of "processQueue exampleConfig acceptAll starved" starved exampleConfig] starved_gate
    by simp
  with processQueue_always_broadcasts[OF s(1,2) b, of acceptAll] closed s show ?thesis by simp
qed

text \<open>
  Claim C1 asks for a broadcast exactly when the pair of indices differs from the pair of
  the most recent broadcast.  The tick compares the pair with the manager's field
  \<^verbatim>\<open>lastNotificationData\<close>, which nothing assigns; the data of the last broadcast is kept
  by the notification client only.  With the gas exhausted, the first tick broadcasts
  (0, 0); the second tick dequeues nothing, confirms nothing, and broadcasts (0, 0) again.
\<close>

theorem unchanged_progress_is_broadcast_again:
  "broadcasts (processQueue exampleConfig acceptAll starved) = [\<lparr>processedIdx = 0, confirmedIdx = 0\<rparr>]
   \<and> claimTxQueue (processQueue exampleConfig acceptAll (processQueue exampleConfig acceptAll starved))
       = claimTxQueue (processQueue exampleConfig acceptAll starved)
   \<and> lastProcessedClaimTxIdx (processQueue exampleConfig acceptAll (processQueue exampleConfig acceptAll starved)) = 0
   \<and> lastConfirmedClaimTxIdx (processQueue exampleConfig acceptAll (processQueue exampleConfig acceptAll starved)) = 0
   \<and> broadcasts (processQueue exampleConfig acceptAll (processQueue exampleConfig acceptAll starved))
       = [\<lparr>processedIdx = 0, confirmedIdx = 0\<rparr>, \<lparr>processedIdx = 0, confirmedIdx = 0\<rparr>]"
proof -
  let ?t1 = "processQueue exampleConfig acceptAll starved"
  have b: "BigInt (cwMinGasAmount exampleConfig) \<noteq> None"
    by (simp add: exampleConfig_def BigInt_eval)
  from starved_tick have t1: "\<not> queueProcessing ?t1" "lastNotificationData ?t1 = None"
    "\<not> gasGate exampleConfig ?t1" by simp_all
  from processQueue_always_broadcasts[OF t1(1,2) b, of acceptAll]
    processQueue_gate_closed[OF t1(3), of acceptAll] starved_tick
  show ?thesis by simp
qed

section \<open>Properties of startup recovery\<close>














lemma Max_snoc: "Max (set (0 # is @ [i])) = max (Max (set (0 # is))) (i::int)"
proof -
  have "set (0 # is @ [i]) = insert i (set (0 # is))" by auto
  then show ?thesis by (simp add: max.commute del: set_simps)
qed
























section \<open>Properties of CwWalletRefill\<close>

lemma executeContract_calls:
  "ready (walletState st) \<Longrightarrow>
     chainCalls (snd (executeContract client contractAddr msg fee st))
       = chainCalls st @ [ExecuteCall (walletAddress st) contractAddr msg fee]"
  by (simp add: executeContract_def Let_def split: ChainResult.splits list.splits option.splits)

lemma executeContract_ready:
  "ready (walletState (snd (executeContract client contractAddr msg fee st))) = ready (walletState st)"
  by (simp add: executeContract_def Let_def split: ChainResult.splits list.splits option.splits)

lemma loadWalletState_calls [simp]: "chainCalls (loadWalletState now q st) = chainCalls st"
  by (simp add: loadWalletState_def emitLog_def Let_def split: ChainQuery.splits option.splits)

lemma emitLog_calls [simp]: "chainCalls (emitLog lvl m st) = chainCalls st"
  by (simp add: emitLog_def)

lemma refillTx_overflow_calls:
  assumes "ready (walletState st)" "truthy (cwRefillContract cfg)"
    "BigInt (strOf (cwRefillOverflowAmount cfg)) = Some ov"
  shows "chainCalls (snd (refillTx cfg client Overflow avail now2 now3 q st))
       = chainCalls st @ [ExecuteCall (walletAddress st) (strOf (cwRefillContract cfg)) Deposit
                            (StdFee [Coin (cwDenom cfg) (bigintToString (avail - ov))] (cwGasLimit cfg))]"
proof -
  let ?fee = "StdFee [Coin (cwDenom cfg) (bigintToString (avail - ov))] (cwGasLimit cfg)"
  obtain res s1 where e: "executeContract client (strOf (cwRefillContract cfg)) Deposit ?fee st = (res, s1)"
    by (cases "executeContract client (strOf (cwRefillContract cfg)) Deposit ?fee st")
  from executeContract_calls[OF assms(1), of client "strOf (cwRefillContract cfg)" Deposit ?fee] e
  have "chainCalls s1 = chainCalls st @ [ExecuteCall (walletAddress st) (strOf (cwRefillContract cfg)) Deposit ?fee]"
    by simp
  with assms e show ?thesis
    by (simp add: refillTx_def executeOverflow_def Let_def split: sum.splits)
qed

lemma refillTx_refill_calls:
  assumes "ready (walletState st)" "truthy (cwRefillContract cfg)" "truthy (cwRefillAmount cfg)"
  shows "chainCalls (snd (refillTx cfg client Refill avail now2 now3 q st))
       = chainCalls st @ [ExecuteCall (walletAddress st) (strOf (cwRefillContract cfg))
                            (Withdraw (strOf (cwRefillAmount cfg))) (gasFee cfg)]"
proof -
  obtain res s1 where e: "executeContract client (strOf (cwRefillContract cfg))
      (Withdraw (strOf (cwRefillAmount cfg))) (gasFee cfg) st = (res, s1)"
    by (cases "executeContract client (strOf (cwRefillContract cfg))
      (Withdraw (strOf (cwRefillAmount cfg))) (gasFee cfg) st")
  from executeContract_calls[OF assms(1), of client "strOf (cwRefillContract cfg)"
      "Withdraw (strOf (cwRefillAmount cfg))" "gasFee cfg"] e
  have "chainCalls s1 = chainCalls st @ [ExecuteCall (walletAddress st) (strOf (cwRefillContract cfg))
                            (Withdraw (strOf (cwRefillAmount cfg))) (gasFee cfg)]"
    by simp
  with assms e show ?thesis
    by (simp add: refillTx_def executeRefill_def Let_def split: sum.splits)
qed

lemma tryRefillWallet_runs:
  assumes "cwRefillEnabled cfg" "truthy (cwRefillContract cfg)" "cooldownsPassed cfg now st"
  shows "chainCalls (tryRefillWallet cfg client now unclaimed now2 now3 q st)
       = chainCalls (snd (refillAttempt cfg client unclaimed now2 now3 q (st\<lparr>lastRefillTry := now\<rparr>)))"
  using assms
  by (auto simp: tryRefillWallet_def cooldownsPassed_def Let_def split: prod.splits option.splits)

lemma refillAttempt_calls:
  assumes "ready (walletState st)" "getQueuedAmount st = Inr queued"
  shows "chainCalls (snd (refillAttempt cfg client unclaimed now2 now3 q st)) =
     (case chooseRefillAction cfg (balance (walletState st) - unclaimed - queued) of
        Inr (Some action) \<Rightarrow>
          chainCalls (snd (refillTx cfg client action (balance (walletState st) - unclaimed - queued)
                             now2 now3 q (st\<lparr>isRefilling := True\<rparr>)))
      | _ \<Rightarrow> chainCalls st)"
  using assms
  by (auto simp: refillAttempt_def Let_def split: prod.splits option.splits sum.splits)


lemma getQueuedAmount_lastRefillTry [simp]:
  "getQueuedAmount (st\<lparr>lastRefillTry := n\<rparr>) = getQueuedAmount st"
  by (simp add: getQueuedAmount_def)

lemma refill_calls:
  assumes run: "cwRefillEnabled cfg" "truthy (cwRefillContract cfg)" "cooldownsPassed cfg now st"
    and rdy: "ready (walletState st)" and queued: "getQueuedAmount st = Inr queued"
  shows "chainCalls (tryRefillWallet cfg client now unclaimed now2 now3 q st) =
     (case chooseRefillAction cfg (balance (walletState st) - unclaimed - queued) of
        Inr (Some action) \<Rightarrow>
          chainCalls (snd (refillTx cfg client action (balance (walletState st) - unclaimed - queued)
                             now2 now3 q (st\<lparr>lastRefillTry := now, isRefilling := True\<rparr>)))
      | _ \<Rightarrow> chainCalls st)"
  using refillAttempt_calls[of "st\<lparr>lastRefillTry := now\<rparr>" queued cfg client unclaimed now2 now3 q]
    rdy queued
  by (simp add: tryRefillWallet_runs[OF run] split: sum.splits option.splits)

text \<open>
  Claim C8, amended.  For a refill invocation that is enabled, passes both cooldowns and
  finds the wallet ready, with \<open>avail\<close> the token balance less the unclaimed balance and
  the queued amount: if an overflow amount is configured and \<open>avail\<close> exceeds it, the
  controller makes exactly one call on the chain, the execute of \<^verbatim>\<open>{deposit: {}}\<close> on the
  refill contract, whose fee struct carries the coin \<open>avail - overflowAmount\<close>; otherwise,
  if \<open>avail\<close> is below the threshold and a refill amount is configured, exactly one call,
  the execute of \<^verbatim>\<open>{withdraw: {amount: refillAmount}}\<close> with the gas fee; otherwise, with
  \<open>avail\<close> at or above the threshold, no call at all.
\<close>

theorem refill_decision:
  "cwRefillEnabled cfg \<and> truthy (cwRefillContract cfg) \<and> cooldownsPassed cfg now st
     \<and> ready (walletState st) \<and> getQueuedAmount st = Inr queued
     \<and> avail = balance (walletState st) - unclaimed - queued
     \<and> st' = tryRefillWallet cfg client now unclaimed sentAt loadedAt q st \<longrightarrow>
   (truthy (cwRefillOverflowAmount cfg) \<and> BigInt (strOf (cwRefillOverflowAmount cfg)) = Some ov
      \<and> ov < avail \<longrightarrow>
      chainCalls st' = chainCalls st @
        [ExecuteCall (walletAddress st) (strOf (cwRefillContract cfg)) Deposit
           (StdFee [Coin (cwDenom cfg) (bigintToString (avail - ov))] (cwGasLimit cfg))])
   \<and> ((\<not> truthy (cwRefillOverflowAmount cfg)
         \<or> BigInt (strOf (cwRefillOverflowAmount cfg)) = Some ov \<and> avail \<le> ov)
        \<and> cwRefillThreshold cfg = Some t \<and> BigInt t = Some th \<longrightarrow>
        (avail < th \<and> truthy (cwRefillAmount cfg) \<longrightarrow>
           chainCalls st' = chainCalls st @
             [ExecuteCall (walletAddress st) (strOf (cwRefillContract cfg))
                (Withdraw (strOf (cwRefillAmount cfg))) (gasFee cfg)])
        \<and> (th \<le> avail \<longrightarrow> chainCalls st' = chainCalls st))"
proof (intro impI)
  assume a: "cwRefillEnabled cfg \<and> truthy (cwRefillContract cfg) \<and> cooldownsPassed cfg now st
     \<and> ready (walletState st) \<and> getQueuedAmount st = Inr queued
     \<and> avail = balance (walletState st) - unclaimed - queued
     \<and> st' = tryRefillWallet cfg client now unclaimed sentAt loadedAt q st"
  then have av: "avail = balance (walletState st) - unclaimed - queued"
    and s: "st' = tryRefillWallet cfg client now unclaimed sentAt loadedAt q st" by simp_all
  from a have calls: "chainCalls st' =
     (case chooseRefillAction cfg avail of
        Inr (Some action) \<Rightarrow>
          chainCalls (snd (refillTx cfg client action avail
                             sentAt loadedAt q (st\<lparr>lastRefillTry := now, isRefilling := True\<rparr>)))
      | _ \<Rightarrow> chainCalls st)"
    unfolding av s using refill_calls[of cfg now st queued client unclaimed sentAt loadedAt q] by blast
  from a have rdy: "ready (walletState (st\<lparr>lastRefillTry := now, isRefilling := True\<rparr>))"
    and con: "truthy (cwRefillContract cfg)" by simp_all
  have over: "chainCalls st' = chainCalls st @
        [ExecuteCall (walletAddress st) (strOf (cwRefillContract cfg)) Deposit
           (StdFee [Coin (cwDenom cfg) (bigintToString (avail - ov))] (cwGasLimit cfg))]"
    if "truthy (cwRefillOverflowAmount cfg) \<and> BigInt (strOf (cwRefillOverflowAmount cfg)) = Some ov
      \<and> ov < avail"
  proof -
    from that have "chooseRefillAction cfg avail = Inr (Some Overflow)"
      by (simp add: chooseRefillAction_def)
    with calls refillTx_overflow_calls[OF rdy con, of ov client avail sentAt loadedAt q] that
    show ?thesis by simp
  qed
  have below: "chooseRefillAction cfg avail = belowThreshold cfg avail"
    if "\<not> truthy (cwRefillOverflowAmount cfg)
         \<or> BigInt (strOf (cwRefillOverflowAmount cfg)) = Some ov \<and> avail \<le> ov"
    using that by (auto simp: chooseRefillAction_def)
  have refill: "chainCalls st' = chainCalls st @
             [ExecuteCall (walletAddress st) (strOf (cwRefillContract cfg))
                (Withdraw (strOf (cwRefillAmount cfg))) (gasFee cfg)]"
    if "\<not> truthy (cwRefillOverflowAmount cfg)
         \<or> BigInt (strOf (cwRefillOverflowAmount cfg)) = Some ov \<and> avail \<le> ov"
      "cwRefillThreshold cfg = Some t" "BigInt t = Some th" "avail < th" "truthy (cwRefillAmount cfg)"
  proof -
    from below[OF that(1)] that have "chooseRefillAction cfg avail = Inr (Some Refill)"
      by (simp add: belowThreshold_def)
    with calls refillTx_refill_calls[OF rdy con that(5), of client avail sentAt loadedAt q]
    show ?thesis by simp
  qed
  have none: "chainCalls st' = chainCalls st"
    if "\<not> truthy (cwRefillOverflowAmount cfg)
         \<or> BigInt (strOf (cwRefillOverflowAmount cfg)) = Some ov \<and> avail \<le> ov"
      "cwRefillThreshold cfg = Some t" "BigInt t = Some th" "th \<le> avail"
  proof -
    from below[OF that(1)] that have "chooseRefillAction cfg avail = Inr None"
      by (simp add: belowThreshold_def)
    with calls show ?thesis by simp
  qed
  from over refill none
  show "(truthy (cwRefillOverflowAmount cfg) \<and> BigInt (strOf (cwRefillOverflowAmount cfg)) = Some ov
      \<and> ov < avail \<longrightarrow>
      chainCalls st' = chainCalls st @
        [ExecuteCall (walletAddress st) (strOf (cwRefillContract cfg)) Deposit
           (StdFee [Coin (cwDenom cfg) (bigintToString (avail - ov))] (cwGasLimit cfg))])
   \<and> ((\<not> truthy (cwRefillOverflowAmount cfg)
         \<or> BigInt (strOf (cwRefillOverflowAmount cfg)) = Some ov \<and> avail \<le> ov)
        \<and> cwRefillThreshold cfg = Some t \<and> BigInt t = Some th \<longrightarrow>
        (avail < th \<and> truthy (cwRefillAmount cfg) \<longrightarrow>
           chainCalls st' = chainCalls st @
             [ExecuteCall (walletAddress st) (strOf (cwRefillContract cfg))
                (Withdraw (strOf (cwRefillAmount cfg))) (gasFee cfg)])
        \<and> (th \<le> avail \<longrightarrow> chainCalls st' = chainCalls st))"
    by blast
qed


lemma fresh_refill_facts:
  "cwRefillEnabled exampleConfig \<and> truthy (cwRefillContract exampleConfig)
   \<and> cooldownsPassed exampleConfig now (freshState w) \<and> getQueuedAmount (freshState w) = Inr 0
   \<and> truthy (cwRefillOverflowAmount exampleConfig) \<and> truthy (cwRefillAmount exampleConfig)
   \<and> BigInt (strOf (cwRefillOverflowAmount exampleConfig)) = Some 100000
   \<and> cwRefillThreshold exampleConfig = Some ''20000'' \<and> BigInt ''20000'' = Some 20000
   \<and> chainCalls (freshState w) = [] \<and> walletAddress (freshState w) = ''cosmos1faucet''
   \<and> walletState (freshState w) = w"
  by (simp add: exampleConfig_def freshState_def truthy_def strOf_def cooldownsPassed_def
      getQueuedAmount_def getQueuedAmountFrom_def BigInt_eval)

text \<open>
  Claim C8 makes the action depend on the cooldowns and the available balance only.  With
  the wallet not ready (the snapshot that a failed \<^verbatim>\<open>loadWalletState\<close> publishes) the
  invocation passes the cooldowns and the available balance, 0, is below the threshold, but
  \<^verbatim>\<open>tryRefillWallet\<close> throws \<^verbatim>\<open>"Wallet not ready"\<close> and makes no call.
\<close>

theorem refill_wallet_not_ready_counterexample:
  "cwRefillEnabled exampleConfig \<and> truthy (cwRefillContract exampleConfig)
   \<and> cooldownsPassed exampleConfig 5000 (freshState notReady)
   \<and> getQueuedAmount (freshState notReady) = Inr 0
   \<and> balance (walletState (freshState notReady)) - 0 - 0 = 0
   \<and> BigInt (strOf (cwRefillOverflowAmount exampleConfig)) = Some 100000
   \<and> BigInt (strOf (cwRefillThreshold exampleConfig)) = Some 20000
   \<and> chainCalls (tryRefillWallet exampleConfig acceptAll 5000 0 5001 5002
                    (ChainQuery (Some 8) ''1050000'' ''999000'') (freshState notReady)) = []"
proof -
  have "chainCalls (tryRefillWallet exampleConfig acceptAll 5000 0 5001 5002
                    (ChainQuery (Some 8) ''1050000'' ''999000'') (freshState notReady)) = []"
    by (simp add: tryRefillWallet_def refillAttempt_def freshState_def notReady_def exampleConfig_def
        truthy_def emitLog_def Let_def)
  moreover have "balance (walletState (freshState notReady)) - 0 - 0 = 0"
    "BigInt (strOf (cwRefillThreshold exampleConfig)) = Some 20000"
    by (simp_all add: freshState_def notReady_def exampleConfig_def strOf_def BigInt_eval)
  ultimately show ?thesis using fresh_refill_facts[of 5000 notReady] by simp
qed

theorem refill_decision_witness:
  "chainCalls (tryRefillWallet exampleConfig acceptAll 5000 0 5001 5002
                 (ChainQuery (Some 8) ''100000'' ''999000'') (freshState readyWallet))
     = [ExecuteCall ''cosmos1faucet'' ''cosmos1treasury'' Deposit
          (StdFee [Coin ''uatom'' ''900000''] ''200000'')]
   \<and> chainCalls (tryRefillWallet exampleConfig acceptAll 5000 0 5001 5002
                 (ChainQuery (Some 8) ''65000'' ''999000'') (freshState (readyWallet\<lparr>balance := 15000\<rparr>)))
     = [ExecuteCall ''cosmos1faucet'' ''cosmos1treasury'' (Withdraw ''50000'')
          (StdFee [Coin ''uatom'' ''200''] ''200000'')]
   \<and> chainCalls (tryRefillWallet exampleConfig acceptAll 5000 0 5001 5002
                 (ChainQuery (Some 8) ''50000'' ''999000'') (freshState (readyWallet\<lparr>balance := 50000\<rparr>)))
     = []"
proof -
  let ?q1 = "ChainQuery (Some 8) ''100000'' ''999000''"
  let ?q2 = "ChainQuery (Some 8) ''65000'' ''999000''"
  let ?q3 = "ChainQuery (Some 8) ''50000'' ''999000''"
  have r: "ready readyWallet" "balance readyWallet = 1000000" by (simp_all add: readyWallet_def)
  have s: "bigintToString 900000 = ''900000''" by (simp add: bigintToString_def natToString.simps)
  have c: "cwDenom exampleConfig = ''uatom''" "cwGasLimit exampleConfig = ''200000''"
    "strOf (cwRefillContract exampleConfig) = ''cosmos1treasury''"
    "strOf (cwRefillAmount exampleConfig) = ''50000''"
    "gasFee exampleConfig = StdFee [Coin ''uatom'' ''200''] ''200000''"
    by (simp_all add: exampleConfig_def strOf_def gasFee_def)
  from refill_decision[where cfg = exampleConfig and now = 5000 and st = "freshState readyWallet"
      and queued = 0 and unclaimed = 0 and avail = 1000000 and client = acceptAll and sentAt = 5001
      and loadedAt = 5002 and q = ?q1 and ov = 100000 and t = "''20000''" and th = 20000
      and st' = "tryRefillWallet exampleConfig acceptAll 5000 0 5001 5002 ?q1 (freshState readyWallet)"]
    fresh_refill_facts[of 5000 readyWallet] r s c
  have 1: "chainCalls (tryRefillWallet exampleConfig acceptAll 5000 0 5001 5002 ?q1 (freshState readyWallet))
     = [ExecuteCall ''cosmos1faucet'' ''cosmos1treasury'' Deposit
          (StdFee [Coin ''uatom'' ''900000''] ''200000'')]"
    by simp
  from refill_decision[where cfg = exampleConfig and now = 5000
      and st = "freshState (readyWallet\<lparr>balance := 15000\<rparr>)"
      and queued = 0 and unclaimed = 0 and avail = 15000 and client = acceptAll and sentAt = 5001
      and loadedAt = 5002 and q = ?q2 and ov = 100000 and t = "''20000''" and th = 20000
      and st' = "tryRefillWallet exampleConfig acceptAll 5000 0 5001 5002 ?q2
                   (freshState (readyWallet\<lparr>balance := 15000\<rparr>))"]
    fresh_refill_facts[of 5000 "readyWallet\<lparr>balance := 15000\<rparr>"] r c
  have 2: "chainCalls (tryRefillWallet exampleConfig acceptAll 5000 0 5001 5002 ?q2
                 (freshState (readyWallet\<lparr>balance := 15000\<rparr>)))
     = [ExecuteCall ''cosmos1faucet'' ''cosmos1treasury'' (Withdraw ''50000'')
          (StdFee [Coin ''uatom'' ''200''] ''200000'')]"
    by simp
  from refill_decision[where cfg = exampleConfig and now = 5000
      and st = "freshState (readyWallet\<lparr>balance := 50000\<rparr>)"
      and queued = 0 and unclaimed = 0 and avail = 50000 and client = acceptAll and sentAt = 5001
      and loadedAt = 5002 and q = ?q3 and ov = 100000 and t = "''20000''" and th = 20000
      and st' = "tryRefillWallet exampleConfig acceptAll 5000 0 5001 5002 ?q3
                   (freshState (readyWallet\<lparr>balance := 50000\<rparr>))"]
    fresh_refill_facts[of 5000 "readyWallet\<lparr>balance := 50000\<rparr>"] r c
  have 3: "chainCalls (tryRefillWallet exampleConfig acceptAll 5000 0 5001 5002 ?q3
                 (freshState (readyWallet\<lparr>balance := 50000\<rparr>))) = []"
    by simp
  from 1 2 3 show ?thesis by blast
qed

section \<open>Properties of readableAmount\<close>

text \<open>
  The definitions of the double arithmetic evaluate by rewriting, each \<open>let\<close> once its bound
  value is a literal.
\<close>

lemmas let_value =
  Let_def [of "numeral k" for k] Let_def [of "- numeral k" for k] Let_def [of 0] Let_def [of 1]
  Let_def [of "Suc 0"] Let_def [of "(a, b)" for a b] Let_def [of "x # xs" for x xs]
  Let_def [of "[]"]

lemma replicate_numeral: "replicate (numeral k) x = x # replicate (pred_numeral k) x"
  by (simp add: numeral_eq_Suc)

lemmas double_eval =
  Number_def Math_pow_def roundRatio_def roundHalfEven_def bitLength.simps let_value
  positiveToString_def decimalExponent_def shortest.simps candidate_def roundsTo_def
  layout_def natToString.simps leadingZeros.simps replicate_numeral

lemmas readable_eval = readableAmount_def exampleConfig_def double_eval

text \<open>The four amounts of the documentation are rendered as it says.\<close>

lemma readableAmount_1234: "readableAmount exampleConfig 1234 = ''1.234 SYM''"
  by (simp add: readable_eval split del: if_split cong: let_weak_cong)

lemma readableAmount_1239: "readableAmount exampleConfig 1239 = ''1.239 SYM''"
  by (simp add: readable_eval split del: if_split cong: let_weak_cong)

lemma readableAmount_1: "readableAmount exampleConfig 1 = ''0.001 SYM''"
  by (simp add: readable_eval split del: if_split cong: let_weak_cong)

lemma readableAmount_0: "readableAmount exampleConfig 0 = ''0 SYM''"
  by (simp add: readable_eval split del: if_split cong: let_weak_cong)

text \<open>
  The amount 1001 with three decimals: the quotient \<open>1001 / 1000\<close> is not a double, the
  nearest one lies below it, and so does its product with 1000, which lies below 1001.
\<close>

lemma quotient_1001:
  "divide_double (Number 1001) (Math_pow 10 3) = Finite 4508103226997866 (- 52)"
  by (simp add: double_eval split del: if_split cong: let_weak_cong)

lemma product_1001:
  "times_double (Finite 4508103226997866 (- 52)) (Number 1000) = Finite 8804889115230207 (- 43)"
  by (simp add: double_eval split del: if_split cong: let_weak_cong)

lemma product_1001_below: "(8804889115230207 :: rat) / 2 ^ 43 < 1001"
  by simp

lemma floor_1001: "Math_floor (Finite 8804889115230207 (- 43)) = Number 1000"
  by (simp add: double_eval split del: if_split cong: let_weak_cong)

lemma truncatedAmount_1234: "truncatedAmount exampleConfig 1234 = ''1.234 SYM''"
  by (simp add: truncatedAmount_def fractionDigits_def exampleConfig_def natToString.simps let_value
      cong: let_weak_cong)

lemma truncatedAmount_0: "truncatedAmount exampleConfig 0 = ''0 SYM''"
  by (simp add: truncatedAmount_def fractionDigits_def exampleConfig_def natToString.simps let_value
      cong: let_weak_cong)

lemma readableAmount_six_decimals:
  "readableAmount (exampleConfig\<lparr>cwDecimals := 6\<rparr>) 1001000 = ''1 SYM''"
  by (simp add: readable_eval split del: if_split cong: let_weak_cong)

text \<open>
  Claim C9.  For a non-negative amount \<^verbatim>\<open>readableAmount\<close> is documented to give the amount
  divided by \<open>10 ^ decimals\<close>, cut (not rounded) to three fractional digits, followed by a
  space and the symbol.  With three decimals and the symbol SYM the amount 1001 is rendered
  as \<open>1 SYM\<close>, where cutting \<open>1.001\<close> to three fractional digits gives \<open>1.001 SYM\<close>: the
  thousandth is lost in the double arithmetic.
\<close>

theorem readableAmount_drops_a_thousandth:
  "readableAmount exampleConfig 1001 = ''1 SYM'' \<and>
   truncatedAmount exampleConfig 1001 = ''1.001 SYM''"
proof
  show "readableAmount exampleConfig 1001 = ''1 SYM''"
    by (simp add: readable_eval split del: if_split cong: let_weak_cong)
  show "truncatedAmount exampleConfig 1001 = ''1.001 SYM''"
    by (simp add: truncatedAmount_def fractionDigits_def exampleConfig_def natToString.simps
        let_value cong: let_weak_cong)
qed

end
